theory Spec2Isabelle
  imports Complex_Main
begin

section \<open>Conventions of the embedding\<close>

text \<open>
  The repository is Python. Its \<open>float\<close> values are modelled as \<open>real\<close> numbers
  (rounding is not followed), its \<open>int\<close> values as \<open>int\<close>, its \<open>str\<close> values as
  \<open>string\<close>. A calendar date is kept as its proleptic Gregorian ordinal (Python's
  \<open>date.toordinal()\<close>); a \<open>datetime\<close> is a real number of days on the same axis, so
  that the text \<open>'%Y-%m-%d'\<close> which the code stores for an expiry is the rendering of
  an integer day and \<open>strptime\<close> of it is midnight of that day. The wall clock
  \<open>datetime.now()\<close> is an explicit argument \<open>now\<close>.
\<close>

type_synonym date = int
type_synonym datetime = real

definition lower_char :: "char \<Rightarrow> char" where
  "lower_char c =
     (let n = (of_char c :: nat)
      in if 65 \<le> n \<and> n \<le> 90 then char_of (n + 32) else c)"

definition lower :: "string \<Rightarrow> string" where
  \<comment> \<open>\<open>str.lower()\<close> on ASCII text\<close>
  "lower s = map lower_char s"

definition py_round :: "real \<Rightarrow> int" where
  \<comment> \<open>\<open>round(x)\<close>: to the nearest integer, a tie to the even one\<close>
  "py_round x =
     (let f = \<lfloor>x\<rfloor>; d = x - of_int f
      in if d < 1/2 then f else if d > 1/2 then f + 1
         else if even f then f else f + 1)"

definition py_int :: "real \<Rightarrow> int" where
  \<comment> \<open>\<open>int(x)\<close>: truncation towards zero\<close>
  "py_int x = (if x \<ge> 0 then \<lfloor>x\<rfloor> else \<lceil>x\<rceil>)"

fun str_nat :: "nat \<Rightarrow> string" where
  "str_nat n =
     (if n < 10 then [char_of (48 + n)]
      else str_nat (n div 10) @ [char_of (48 + n mod 10)])"

declare str_nat.simps [simp del]

definition str_int :: "int \<Rightarrow> string" where
  \<comment> \<open>\<open>str(i)\<close> of an integer, as an f-string renders it\<close>
  "str_int i = (if i < 0 then CHR ''-'' # str_nat (nat (- i)) else str_nat (nat i))"

datatype py_error =
    ZeroDivisionError
  | OverflowError
  | IndexError
  | ValueError string

text \<open>
  Two operations on Python floats raise instead of returning an infinity: the
  division by zero, and the power \<open>x**2\<close> when the square is too large for a double,
  that is when it rounds to 2^1024 or more (\<open>OverflowError\<close>). The fields of an
  \<open>OptionParams\<close> are taken to hold Python floats, as the dataclass declares them and
  as the test suite fills them; with NumPy scalars in the fields neither operation
  raises, and the results below are stated where the two agree.
\<close>

definition pow2_overflows :: "real \<Rightarrow> bool" where
  "pow2_overflows x \<longleftrightarrow> x\<^sup>2 \<ge> 2 ^ 1024 - 2 ^ 970"

definition mean :: "real list \<Rightarrow> real" where
  \<comment> \<open>\<open>np.mean\<close>\<close>
  "mean xs = sum_list xs / real (length xs)"

definition np_std :: "real list \<Rightarrow> real" where
  \<comment> \<open>\<open>np.std\<close>, the population standard deviation\<close>
  "np_std xs = sqrt (mean (map (\<lambda>x. (x - mean xs)\<^sup>2) xs))"

section \<open>option\_pricing.py\<close>

record OptionParams =
  spot_price :: real
  strike_price :: real
  time_to_expiry :: real
  risk_free_rate :: real
  volatility :: real
  dividend_yield :: real

record Greeks =
  delta :: real
  gamma :: real
  theta :: real
  vega :: real
  rho :: real

text \<open>
  \<open>scipy.stats.norm\<close>: the density and the distribution function of the standard
  normal law, the latter by its power series around 0.
\<close>

definition norm_pdf :: "real \<Rightarrow> real" where
  "norm_pdf x = exp (- (x\<^sup>2) / 2) / sqrt (2 * pi)"

definition norm_cdf :: "real \<Rightarrow> real" where
  "norm_cdf x =
     1/2 + (\<Sum>n. (- 1) ^ n * x ^ (2 * n + 1) / (2 ^ n * fact n * real (2 * n + 1)))
           / sqrt (2 * pi)"

subsection \<open>BlackScholesPricer\<close>

definition bs_d1 :: "OptionParams \<Rightarrow> real" where
  "bs_d1 params =
     (ln (spot_price params / strike_price params)
      + (risk_free_rate params - dividend_yield params + 0.5 * (volatility params)\<^sup>2)
        * time_to_expiry params)
     / (volatility params * sqrt (time_to_expiry params))"

definition bs_d2 :: "OptionParams \<Rightarrow> real" where
  "bs_d2 params = bs_d1 params - volatility params * sqrt (time_to_expiry params)"

text \<open>
  Both functions compute \<open>d1\<close> first. In that expression \<open>S / K\<close> raises
  \<open>ZeroDivisionError\<close> for \<open>K = 0\<close> and then \<open>sigma**2\<close> raises \<open>OverflowError\<close> for a
  volatility whose square overflows; everything after it goes through NumPy and does
  not raise. Where NumPy goes on with an infinity or a NaN (the logarithm of a ratio
  that is not positive, a divisor \<open>sigma * sqrt(T)\<close> equal to zero) the real-valued
  formula below is not the value of the code.
\<close>

definition BlackScholesPricer_calculate_price :: "OptionParams \<Rightarrow> string \<Rightarrow> py_error + real" where
  "BlackScholesPricer_calculate_price params ot =
     (let S = spot_price params; K = strike_price params; T = time_to_expiry params;
          r = risk_free_rate params; q = dividend_yield params
      in if T \<le> 0
         then Inr (if lower ot = ''call'' then max (S - K) 0 else max (K - S) 0)
         else if K = 0 then Inl ZeroDivisionError
         else if pow2_overflows (volatility params) then Inl OverflowError
         else
           (let d1 = bs_d1 params; d2 = bs_d2 params;
                price =
                  (if lower ot = ''call''
                   then S * exp (- q * T) * norm_cdf d1 - K * exp (- r * T) * norm_cdf d2
                   else K * exp (- r * T) * norm_cdf (- d2) - S * exp (- q * T) * norm_cdf (- d1))
            in Inr (max price 0)))"

definition BlackScholesPricer_calculate_greeks :: "OptionParams \<Rightarrow> string \<Rightarrow> py_error + Greeks" where
  "BlackScholesPricer_calculate_greeks params ot =
     (let S = spot_price params; K = strike_price params; T = time_to_expiry params;
          r = risk_free_rate params; sigma = volatility params; q = dividend_yield params
      in if T \<le> 0
         then Inr \<lparr>delta = 0, gamma = 0, theta = 0, vega = 0, rho = 0\<rparr>
         else if K = 0 then Inl ZeroDivisionError
         else if pow2_overflows sigma then Inl OverflowError
         else
           (let d1 = bs_d1 params; d2 = bs_d2 params;
                call = (lower ot = ''call'')
            in Inr
              \<lparr>delta =
                 (if call then exp (- q * T) * norm_cdf d1
                  else - exp (- q * T) * norm_cdf (- d1)),
               gamma = exp (- q * T) * norm_pdf d1 / (S * sigma * sqrt T),
               theta =
                 (if call
                  then (- S * exp (- q * T) * norm_pdf d1 * sigma / (2 * sqrt T)
                        - r * K * exp (- r * T) * norm_cdf d2
                        + q * S * exp (- q * T) * norm_cdf d1) / 365
                  else (- S * exp (- q * T) * norm_pdf d1 * sigma / (2 * sqrt T)
                        + r * K * exp (- r * T) * norm_cdf (- d2)
                        - q * S * exp (- q * T) * norm_cdf (- d1)) / 365),
               vega = S * exp (- q * T) * norm_pdf d1 * sqrt T / 100,
               rho =
                 (if call then K * T * exp (- r * T) * norm_cdf d2 / 100
                  else - K * T * exp (- r * T) * norm_cdf (- d2) / 100)\<rparr>))"

text \<open>
  \<open>implied_volatility\<close> hands the closure \<open>objective\<close> to
  \<open>scipy.optimize.minimize_scalar\<close>. The optimiser is a black box here: given the
  objective (which may raise) and the bounds it yields the trial points at which it
  called the objective, in order, and either the exception that left it or its result
  \<open>(x, success)\<close>. Each call of \<open>objective\<close> first assigns the trial point to
  \<open>params.volatility\<close>, on the caller's object, so the function returns the object's
  final state beside its result.
\<close>

type_synonym minimize_scalar =
  "(real \<Rightarrow> py_error + real) \<Rightarrow> real \<times> real \<Rightarrow> real list \<times> (py_error + real \<times> bool)"

definition objective :: "real \<Rightarrow> OptionParams \<Rightarrow> string \<Rightarrow> real \<Rightarrow> py_error + real" where
  "objective market_price params ot vol =
     (case BlackScholesPricer_calculate_price (params\<lparr>volatility := vol\<rparr>) ot of
        Inl e \<Rightarrow> Inl e
      | Inr theoretical_price \<Rightarrow> Inr ((theoretical_price - market_price)\<^sup>2))"

definition implied_volatility ::
  "minimize_scalar \<Rightarrow> real \<Rightarrow> OptionParams \<Rightarrow> string \<Rightarrow> real option \<times> OptionParams" where
  "implied_volatility minimize market_price params ot =
     (let (trials, outcome) = minimize (objective market_price params ot) (0.01, 5.0);
          params' = (if trials = [] then params else params\<lparr>volatility := last trials\<rparr>)
      in case outcome of
           Inl e \<Rightarrow> (None, params')
         | Inr (x, success) \<Rightarrow> (if success then Some x else None, params'))"

subsection \<open>BinomialPricer\<close>

definition sweep :: "nat \<Rightarrow> real \<Rightarrow> real \<Rightarrow> real list \<Rightarrow> real list" where
  \<comment> \<open>the inner loop \<open>for i in range(step + 1)\<close>, in place\<close>
  "sweep step p disc ov =
     map (\<lambda>i. if i \<le> step then (p * ov ! i + (1 - p) * ov ! (i + 1)) * disc else ov ! i)
       [0..<length ov]"

fun backward_induction :: "nat \<Rightarrow> real \<Rightarrow> real \<Rightarrow> real list \<Rightarrow> real list" where
  \<comment> \<open>\<open>for step in range(n - 1, -1, -1)\<close>\<close>
  "backward_induction 0 p disc ov = ov"
| "backward_induction (Suc step) p disc ov = backward_induction step p disc (sweep step p disc ov)"

definition BinomialPricer_calculate_price :: "OptionParams \<Rightarrow> string \<Rightarrow> nat \<Rightarrow> py_error + real" where
  "BinomialPricer_calculate_price params ot steps =
     (let S = spot_price params; K = strike_price params; T = time_to_expiry params;
          r = risk_free_rate params; sigma = volatility params; q = dividend_yield params
      in if T \<le> 0
         then Inr (if lower ot = ''call'' then max (S - K) 0 else max (K - S) 0)
         else if steps = 0 then Inl ZeroDivisionError
         else
           (let dt = T / real steps;
                u = exp (sigma * sqrt dt);
                d = 1 / u;
                p = (exp ((r - q) * dt) - d) / (u - d);
                stock_prices = map (\<lambda>i. S * u ^ (steps - i) * d ^ i) [0..<steps + 1];
                option_values =
                  map (\<lambda>s. if lower ot = ''call'' then max (s - K) 0 else max (K - s) 0)
                    stock_prices
            in Inr (backward_induction steps p (exp (- r * dt)) option_values ! 0)))"

subsection \<open>MonteCarloPricer\<close>

text \<open>
  NumPy's legacy generator is process-wide state. It is made explicit: \<open>'g\<close> is the
  state of the global generator, \<open>np_seed\<close> is \<open>np.random.seed\<close> (the state after
  seeding) and \<open>np_standard_normal\<close> is \<open>np.random.standard_normal\<close> (the variates
  drawn and the state after drawing).
\<close>

record 'g numpy_random =
  np_seed :: "nat \<Rightarrow> 'g"
  np_standard_normal :: "nat \<Rightarrow> 'g \<Rightarrow> real list \<times> 'g"

definition MonteCarloPricer_calculate_price ::
  "'g numpy_random \<Rightarrow> OptionParams \<Rightarrow> string \<Rightarrow> nat \<Rightarrow> 'g
     \<Rightarrow> (py_error + real \<times> real) \<times> 'g" where
  \<comment> \<open>\<open>sigma**2\<close> is evaluated after the generator was seeded and the variates drawn\<close>
  "MonteCarloPricer_calculate_price np params ot simulations g =
     (let S = spot_price params; K = strike_price params; T = time_to_expiry params;
          r = risk_free_rate params; sigma = volatility params; q = dividend_yield params
      in if T \<le> 0
         then (Inr (if lower ot = ''call'' then max (S - K) 0 else max (K - S) 0, 0), g)
         else
           (let g1 = np_seed np 42;
                (Z, g2) = np_standard_normal np simulations g1
            in if pow2_overflows sigma then (Inl OverflowError, g2)
               else
                 (let ST = map (\<lambda>z. S * exp ((r - q - 0.5 * sigma\<^sup>2) * T + sigma * sqrt T * z)) Z;
                      payoffs =
                        (if lower ot = ''call'' then map (\<lambda>s. max (s - K) 0) ST
                         else map (\<lambda>s. max (K - s) 0) ST);
                      option_price = exp (- r * T) * mean payoffs;
                      standard_error = exp (- r * T) * np_std payoffs / sqrt (real simulations)
                  in (Inr (option_price, standard_error), g2))))"

subsection \<open>OptionPricingEngine\<close>

text \<open>
  The dictionary \<open>price_option\<close> returns has one of four shapes, one per constructor;
  \<open>Error_dict\<close> is \<open>{'price': 0, 'error': str(e)}\<close>.
\<close>

datatype price_dict =
    BS_dict real Greeks
  | Binomial_dict real
  | MC_dict real real
  | Error_dict real py_error

fun dict_price :: "price_dict \<Rightarrow> real" where
  \<comment> \<open>\<open>result.get('price', 0.05)\<close>: every shape has the key\<close>
  "dict_price (BS_dict p g) = p"
| "dict_price (Binomial_dict p) = p"
| "dict_price (MC_dict p e) = p"
| "dict_price (Error_dict p e) = p"


definition price_black_scholes :: "OptionParams \<Rightarrow> string \<Rightarrow> price_dict" where
  \<comment> \<open>the branch \<open>method == 'black_scholes'\<close> of \<open>price_option\<close>, under its \<open>except\<close>\<close>
  "price_black_scholes params ot =
     (case BlackScholesPricer_calculate_price params ot of
        Inl e \<Rightarrow> Error_dict 0 e
      | Inr price \<Rightarrow>
          (case BlackScholesPricer_calculate_greeks params ot of
             Inl e \<Rightarrow> Error_dict 0 e
           | Inr greeks \<Rightarrow> BS_dict price greeks))"

definition price_option ::
  "'g numpy_random \<Rightarrow> OptionParams \<Rightarrow> string \<Rightarrow> string \<Rightarrow> 'g \<Rightarrow> price_dict \<times> 'g" where
  "price_option np params ot method g =
     (if method = ''black_scholes'' then (price_black_scholes params ot, g)
      else if method = ''binomial'' then
        (case BinomialPricer_calculate_price params ot 100 of
           Inl e \<Rightarrow> (Error_dict 0 e, g)
         | Inr price \<Rightarrow> (Binomial_dict price, g))
      else if method = ''monte_carlo'' then
        (case MonteCarloPricer_calculate_price np params ot 100000 g of
           (Inl e, g') \<Rightarrow> (Error_dict 0 e, g')
         | (Inr (price, std_error), g') \<Rightarrow> (MC_dict price std_error, g'))
      else (Error_dict 0 (ValueError (''Unknown pricing method: '' @ method)), g))"

section \<open>option\_strategies.py: StrategySelector\<close>

text \<open>
  \<open>market_conditions\<close> is a dictionary read with \<open>.get(key, default)\<close>; a field is
  \<open>None\<close> when the key is absent.
\<close>

record market_conditions =
  mc_volatility :: "real option"
  mc_trend :: "string option"
  mc_time_to_expiry :: "real option"

definition select_strategy :: "market_conditions \<Rightarrow> string" where
  "select_strategy mc =
     (let volatility = (case mc_volatility mc of None \<Rightarrow> 0.2 | Some v \<Rightarrow> v);
          trend = (case mc_trend mc of None \<Rightarrow> ''neutral'' | Some t \<Rightarrow> t);
          time_to_expiry = (case mc_time_to_expiry mc of None \<Rightarrow> 30 | Some t \<Rightarrow> t)
      in if volatility > 0.3 \<and> trend = ''neutral'' then ''straddle''
         else if volatility > 0.25 \<and> trend = ''neutral'' then ''strangle''
         else if volatility < 0.2 \<and> trend = ''neutral'' then ''iron_condor''
         else if volatility < 0.15 \<and> trend = ''neutral'' then ''butterfly''
         else ''straddle'')"

section \<open>option\_strategies.py: the strategies' Greeks\<close>

record StrategyParams =
  sp_spot_price :: real
  strike_prices :: "real list"
  expiry_dates :: "string list"
  option_prices :: "string \<rightharpoonup> real"
  quantities :: "string \<rightharpoonup> int"
  sp_risk_free_rate :: real
  sp_volatility :: real

definition StraddleStrategy_calculate_greeks :: "StrategyParams \<Rightarrow> py_error + Greeks" where
  "StraddleStrategy_calculate_greeks strategy_params =
     (case strike_prices strategy_params of
        [] \<Rightarrow> Inl IndexError
      | strike # _ \<Rightarrow>
          (let call_params =
                 \<lparr>spot_price = sp_spot_price strategy_params, strike_price = strike,
                  time_to_expiry = 30 / 365,
                  risk_free_rate = sp_risk_free_rate strategy_params,
                  volatility = sp_volatility strategy_params, dividend_yield = 0\<rparr>
           in case BlackScholesPricer_calculate_greeks call_params ''call'' of
                Inl e \<Rightarrow> Inl e
              | Inr call_greeks \<Rightarrow>
                  (let put_params =
                         \<lparr>spot_price = sp_spot_price strategy_params, strike_price = strike,
                          time_to_expiry = 30 / 365,
                          risk_free_rate = sp_risk_free_rate strategy_params,
                          volatility = sp_volatility strategy_params, dividend_yield = 0\<rparr>
                   in case BlackScholesPricer_calculate_greeks put_params ''put'' of
                        Inl e \<Rightarrow> Inl e
                      | Inr put_greeks \<Rightarrow>
                          Inr \<lparr>delta = delta call_greeks + delta put_greeks,
                               gamma = gamma call_greeks + gamma put_greeks,
                               theta = theta call_greeks + theta put_greeks,
                               vega = vega call_greeks + vega put_greeks,
                               rho = rho call_greeks + rho put_greeks\<rparr>)))"

definition StrangleStrategy_calculate_greeks :: "StrategyParams \<Rightarrow> py_error + Greeks" where
  "StrangleStrategy_calculate_greeks strategy_params =
     (case strike_prices strategy_params of
        call_strike # put_strike # _ \<Rightarrow>
          (let call_params =
                 \<lparr>spot_price = sp_spot_price strategy_params, strike_price = call_strike,
                  time_to_expiry = 30 / 365,
                  risk_free_rate = sp_risk_free_rate strategy_params,
                  volatility = sp_volatility strategy_params, dividend_yield = 0\<rparr>
           in case BlackScholesPricer_calculate_greeks call_params ''call'' of
                Inl e \<Rightarrow> Inl e
              | Inr call_greeks \<Rightarrow>
                  (let put_params =
                         \<lparr>spot_price = sp_spot_price strategy_params, strike_price = put_strike,
                          time_to_expiry = 30 / 365,
                          risk_free_rate = sp_risk_free_rate strategy_params,
                          volatility = sp_volatility strategy_params, dividend_yield = 0\<rparr>
                   in case BlackScholesPricer_calculate_greeks put_params ''put'' of
                        Inl e \<Rightarrow> Inl e
                      | Inr put_greeks \<Rightarrow>
                          Inr \<lparr>delta = delta call_greeks + delta put_greeks,
                               gamma = gamma call_greeks + gamma put_greeks,
                               theta = theta call_greeks + theta put_greeks,
                               vega = vega call_greeks + vega put_greeks,
                               rho = rho call_greeks + rho put_greeks\<rparr>))
      | _ \<Rightarrow> Inl IndexError)"

fun legs_loop ::
  "StrategyParams \<Rightarrow> (real \<times> string \<times> real) list \<Rightarrow> Greeks \<Rightarrow> py_error + Greeks" where
  \<comment> \<open>\<open>for strike, opt_type, qty in zip(strikes, option_types, quantities)\<close>, the
      running totals as the accumulator\<close>
  "legs_loop strategy_params [] tot = Inr tot"
| "legs_loop strategy_params ((strike, opt_type, qty) # legs) tot =
     (let params =
            \<lparr>spot_price = sp_spot_price strategy_params, strike_price = strike,
             time_to_expiry = 30 / 365,
             risk_free_rate = sp_risk_free_rate strategy_params,
             volatility = sp_volatility strategy_params, dividend_yield = 0\<rparr>
      in case BlackScholesPricer_calculate_greeks params opt_type of
           Inl e \<Rightarrow> Inl e
         | Inr greeks \<Rightarrow>
             legs_loop strategy_params legs
               \<lparr>delta = delta tot + delta greeks * qty,
                gamma = gamma tot + gamma greeks * qty,
                theta = theta tot + theta greeks * qty,
                vega = vega tot + vega greeks * qty,
                rho = rho tot + rho greeks * qty\<rparr>)"

definition zero_greeks :: Greeks where
  "zero_greeks = \<lparr>delta = 0, gamma = 0, theta = 0, vega = 0, rho = 0\<rparr>"

definition IronCondorStrategy_calculate_greeks :: "StrategyParams \<Rightarrow> py_error + Greeks" where
  "IronCondorStrategy_calculate_greeks strategy_params =
     (case strike_prices strategy_params of
        put_long # put_short # call_short # call_long # _ \<Rightarrow>
          legs_loop strategy_params
            [(put_long, ''put'', 1), (put_short, ''put'', - 1),
             (call_short, ''call'', - 1), (call_long, ''call'', 1)]
            zero_greeks
      | _ \<Rightarrow> Inl IndexError)"

definition ButterflyStrategy_calculate_greeks :: "StrategyParams \<Rightarrow> py_error + Greeks" where
  "ButterflyStrategy_calculate_greeks strategy_params =
     (case strike_prices strategy_params of
        lower_strike # middle_strike # upper_strike # _ \<Rightarrow>
          legs_loop strategy_params
            [(lower_strike, ''call'', 1), (middle_strike, ''call'', - 2),
             (upper_strike, ''call'', 1)]
            zero_greeks
      | _ \<Rightarrow> Inl IndexError)"

section \<open>risk\_management.py: Position and RiskManager\<close>

record Position =
  symbol :: string
  option_type :: string
  pos_strike_price :: real
  expiry_date :: date
  quantity :: int
  entry_price :: real
  current_price :: real
  entry_time :: datetime
  strategy_name :: string

record RiskManager =
  max_position_size :: real
  max_daily_loss :: real
  stop_loss_pct :: real
  take_profit_pct :: real
  daily_pnl :: real
  rm_positions :: "Position list"

definition calculate_stop_loss_level :: "RiskManager \<Rightarrow> real \<Rightarrow> string \<Rightarrow> real" where
  "calculate_stop_loss_level rm entry ot =
     (if lower ot = ''call'' then entry * (1 - stop_loss_pct rm)
      else entry * (1 + stop_loss_pct rm))"

definition calculate_take_profit_level :: "RiskManager \<Rightarrow> real \<Rightarrow> string \<Rightarrow> real" where
  "calculate_take_profit_level rm entry ot =
     (if lower ot = ''call'' then entry * (1 + take_profit_pct rm)
      else entry * (1 - take_profit_pct rm))"

definition days_to_expiry :: "datetime \<Rightarrow> date \<Rightarrow> int" where
  \<comment> \<open>\<open>(datetime.strptime(expiry, '%Y-%m-%d') - datetime.now()).days\<close>\<close>
  "days_to_expiry now expiry = \<lfloor>of_int expiry - now\<rfloor>"

definition should_exit_position ::
  "RiskManager \<Rightarrow> datetime \<Rightarrow> Position \<Rightarrow> real \<Rightarrow> bool \<times> string" where
  "should_exit_position rm now position cur =
     (let stop_loss_level =
            calculate_stop_loss_level rm (entry_price position) (option_type position)
      in if lower (option_type position) = ''call'' \<and> cur \<le> stop_loss_level
         then (True, ''stop_loss'')
         else if lower (option_type position) = ''put'' \<and> cur \<ge> stop_loss_level
         then (True, ''stop_loss'')
         else
           (let take_profit_level =
                  calculate_take_profit_level rm (entry_price position) (option_type position)
            in if lower (option_type position) = ''call'' \<and> cur \<ge> take_profit_level
               then (True, ''take_profit'')
               else if lower (option_type position) = ''put'' \<and> cur \<le> take_profit_level
               then (True, ''take_profit'')
               else if days_to_expiry now (expiry_date position) \<le> 7
               then (True, ''time_decay'')
               else (False, ''hold'')))"

record RiskMetrics =
  portfolio_value :: real
  total_delta :: real
  total_gamma :: real
  total_theta :: real
  total_vega :: real
  total_rho :: real
  var_95 :: real
  var_99 :: real
  max_drawdown :: real
  sharpe_ratio :: real
  beta :: real

definition calculate_delta :: "Position \<Rightarrow> real" where
  "calculate_delta position = (if lower (option_type position) = ''call'' then 0.5 else - 0.5)"

definition calculate_gamma :: "Position \<Rightarrow> real" where
  "calculate_gamma position = 0.01"

definition calculate_theta :: "Position \<Rightarrow> real" where
  "calculate_theta position = - 0.1"

definition calculate_vega :: "Position \<Rightarrow> real" where
  "calculate_vega position = 0.2"

definition calculate_rho :: "Position \<Rightarrow> real" where
  "calculate_rho position = 0.05"

definition calculate_var :: "real \<Rightarrow> real \<times> real" where
  "calculate_var pv = (let volatility = 0.2 in (pv * volatility * 1.645, pv * volatility * 2.326))"

definition calculate_portfolio_metrics :: "RiskManager \<Rightarrow> (string \<rightharpoonup> real) \<Rightarrow> RiskMetrics" where
  "calculate_portfolio_metrics rm current_prices =
     (if rm_positions rm = []
      then \<lparr>portfolio_value = 0, total_delta = 0, total_gamma = 0, total_theta = 0,
            total_vega = 0, total_rho = 0, var_95 = 0, var_99 = 0, max_drawdown = 0,
            sharpe_ratio = 0, beta = 0\<rparr>
      else
        (let pv = (\<Sum>pos\<leftarrow>rm_positions rm.
                     of_int (quantity pos)
                     * (case current_prices (symbol pos) of
                          None \<Rightarrow> current_price pos | Some c \<Rightarrow> c));
             (v95, v99) = calculate_var pv
         in \<lparr>portfolio_value = pv,
             total_delta = (\<Sum>pos\<leftarrow>rm_positions rm. of_int (quantity pos) * calculate_delta pos),
             total_gamma = (\<Sum>pos\<leftarrow>rm_positions rm. of_int (quantity pos) * calculate_gamma pos),
             total_theta = (\<Sum>pos\<leftarrow>rm_positions rm. of_int (quantity pos) * calculate_theta pos),
             total_vega = (\<Sum>pos\<leftarrow>rm_positions rm. of_int (quantity pos) * calculate_vega pos),
             total_rho = (\<Sum>pos\<leftarrow>rm_positions rm. of_int (quantity pos) * calculate_rho pos),
             var_95 = v95, var_99 = v99,
             max_drawdown = 0.1, sharpe_ratio = 1.5, beta = 1.0\<rparr>))"

section \<open>backtesting.py: BacktestEngine\<close>

text \<open>
  A row of the price series is its index (the date) and its \<open>Close\<close>. One value of
  \<open>now\<close> stands for the wall clock of a whole run. \<open>run_backtest\<close> is followed up to
  the forced closure at the end; the date filter before the loop and the statistics
  after it are left out.
\<close>

record bar =
  bar_date :: datetime
  Close :: real

record Trade =
  entry_date :: datetime
  exit_date :: datetime
  strategy :: string
  trade_entry_price :: real
  exit_price :: real
  trade_quantity :: int
  pnl :: real
  return_pct :: real
  duration :: int

record equity_point =
  eq_date :: datetime
  equity :: real
  capital :: real
  n_positions :: nat

record BacktestEngine =
  initial_capital :: real
  current_capital :: real
  positions :: "Position list"
  trades :: "Trade list"
  equity_curve :: "equity_point list"
  risk_manager :: RiskManager

definition RiskManager_init :: RiskManager where
  "RiskManager_init =
     \<lparr>max_position_size = 1000000, max_daily_loss = 50000, stop_loss_pct = 0.02,
      take_profit_pct = 0.05, daily_pnl = 0, rm_positions = []\<rparr>"

definition BacktestEngine_init :: "real \<Rightarrow> BacktestEngine" where
  "BacktestEngine_init ic =
     \<lparr>initial_capital = ic, current_capital = ic, positions = [], trades = [],
      equity_curve = [], risk_manager = RiskManager_init\<rparr>"

definition pct_change :: "real list \<Rightarrow> real list" where
  \<comment> \<open>\<open>Series.pct_change().dropna()\<close>\<close>
  "pct_change xs = map (\<lambda>(a, b). (b - a) / a) (zip (butlast xs) (tl xs))"

definition pd_std :: "real list \<Rightarrow> real" where
  \<comment> \<open>\<open>Series.std()\<close>, the sample standard deviation\<close>
  "pd_std xs = sqrt ((\<Sum>x\<leftarrow>xs. (x - mean xs)\<^sup>2) / (real (length xs) - 1))"

definition calculate_volatility :: "bar list \<Rightarrow> real" where
  "calculate_volatility data =
     (if length data < 20 then 0.2
      else pd_std (pct_change (map Close data)) * sqrt 252)"

definition get_atm_strike :: "real \<Rightarrow> int" where
  "get_atm_strike spot = py_round (spot / 50) * 50"

definition weekday :: "datetime \<Rightarrow> int" where
  \<comment> \<open>\<open>date.weekday()\<close>, Monday is 0; ordinal 1 is a Monday\<close>
  "weekday d = (\<lfloor>d\<rfloor> + 6) mod 7"

definition get_next_expiry :: "datetime \<Rightarrow> date" where
  "get_next_expiry d =
     (let days_ahead = (3 - weekday d) mod 7;
          days_ahead = (if days_ahead = 0 then 7 else days_ahead)
      in \<lfloor>d\<rfloor> + days_ahead)"

definition calculate_option_price :: "datetime \<Rightarrow> real \<Rightarrow> real \<Rightarrow> date \<Rightarrow> string \<Rightarrow> real" where
  "calculate_option_price now spot strike expiry ot =
     (let tte = of_int (days_to_expiry now expiry) / 365.0;
          params =
            \<lparr>spot_price = spot, strike_price = strike, time_to_expiry = tte,
             risk_free_rate = 0.05, volatility = 0.2, dividend_yield = 0\<rparr>
      in dict_price (price_black_scholes params ot))"

definition calculate_position_size :: "BacktestEngine \<Rightarrow> real \<Rightarrow> int" where
  "calculate_position_size st option_price =
     (let max_risk = current_capital st * 0.02;
          position_value = option_price * 50
      in if position_value > 0 then py_int (max_risk / position_value) else 0)"

definition should_enter_trade :: "BacktestEngine \<Rightarrow> bar list \<Rightarrow> bool" where
  "should_enter_trade st data =
     (if length (positions st) > 0 then False
      else if current_capital st < 100000 then False
      else (let volatility = calculate_volatility data
            in if volatility < 0.15 \<or> volatility > 0.5 then False else True))"

definition bt_select_strategy :: "bar \<Rightarrow> string list option \<Rightarrow> string" where
  \<comment> \<open>\<open>BacktestEngine._select_strategy\<close>; the volatility is taken of the one-row
      frame \<open>pd.DataFrame([row])\<close>\<close>
  "bt_select_strategy row strategies =
     (let volatility = calculate_volatility [row]
      in if volatility > 0.3 then ''straddle''
         else if volatility > 0.25 then ''strangle''
         else if volatility < 0.2 then ''iron_condor''
         else ''butterfly'')"

definition enter_trade :: "datetime \<Rightarrow> datetime \<Rightarrow> bar \<Rightarrow> string \<Rightarrow> BacktestEngine \<Rightarrow> BacktestEngine" where
  "enter_trade now d row strat st =
     (let spot = Close row;
          strike = get_atm_strike spot;
          expiry = get_next_expiry d;
          call_price = calculate_option_price now spot (of_int strike) expiry ''call'';
          put_price = calculate_option_price now spot (of_int strike) expiry ''put'';
          position_size = calculate_position_size st (call_price + put_price)
      in if position_size > 0
         then
           (let call_position =
                  \<lparr>symbol = ''NIFTY'' @ str_int strike @ ''CE'', option_type = ''call'',
                   pos_strike_price = of_int strike, expiry_date = expiry,
                   quantity = position_size, entry_price = call_price,
                   current_price = call_price, entry_time = d, strategy_name = strat\<rparr>;
                put_position =
                  \<lparr>symbol = ''NIFTY'' @ str_int strike @ ''PE'', option_type = ''put'',
                   pos_strike_price = of_int strike, expiry_date = expiry,
                   quantity = position_size, entry_price = put_price,
                   current_price = put_price, entry_time = d, strategy_name = strat\<rparr>
            in st\<lparr>positions := positions st @ [call_position, put_position],
                  current_capital :=
                    current_capital st - (call_price + put_price) * of_int position_size * 50\<rparr>)
         else st)"

definition close_position :: "Position \<Rightarrow> datetime \<Rightarrow> string \<Rightarrow> BacktestEngine \<Rightarrow> BacktestEngine" where
  \<comment> \<open>\<open>return_pct\<close> divides by the entry price: for an entry price of 0 (a Python
      zero, as \<open>max(x, 0)\<close> gives for a negative \<open>x\<close>) the \<open>ZeroDivisionError\<close> is caught
      and logged before anything is changed\<close>
  "close_position position d reason st =
     (let pnl_v = (current_price position - entry_price position) * of_int (quantity position) * 50
      in if entry_price position = 0 then st
         else
           (let ret = (current_price position - entry_price position) / entry_price position;
                trade =
                  \<lparr>entry_date = entry_time position, exit_date = d,
                   strategy = strategy_name position,
                   trade_entry_price = entry_price position,
                   exit_price = current_price position,
                   trade_quantity = quantity position, pnl = pnl_v, return_pct = ret,
                   duration = \<lfloor>d - entry_time position\<rfloor>\<rparr>
            in st\<lparr>trades := trades st @ [trade],
                  current_capital := current_capital st + pnl_v,
                  positions := remove1 position (positions st)\<rparr>))"

definition check_exit_signals :: "datetime \<Rightarrow> datetime \<Rightarrow> BacktestEngine \<Rightarrow> BacktestEngine" where
  "check_exit_signals now d st =
     (let positions_to_close =
            concat (map (\<lambda>position.
                      (let (should_exit, reason) =
                             should_exit_position (risk_manager st) now position
                               (current_price position)
                       in if should_exit then [(position, reason)] else []))
                    (positions st))
      in foldl (\<lambda>s (position, reason). close_position position d reason s) st positions_to_close)"

definition close_all_positions :: "bar \<Rightarrow> BacktestEngine \<Rightarrow> BacktestEngine" where
  "close_all_positions last_row st =
     foldl (\<lambda>s position. close_position position (bar_date last_row) ''end_of_backtest'' s)
       st (positions st)"

definition update_position_values :: "datetime \<Rightarrow> bar \<Rightarrow> BacktestEngine \<Rightarrow> BacktestEngine" where
  "update_position_values now row st =
     st\<lparr>positions :=
          map (\<lambda>position.
                 position\<lparr>current_price :=
                   calculate_option_price now (Close row) (pos_strike_price position)
                     (expiry_date position) (option_type position)\<rparr>)
              (positions st)\<rparr>"

definition position_value :: "Position list \<Rightarrow> real" where
  \<comment> \<open>the mark-to-market sum of \<open>_update_equity_curve\<close>\<close>
  "position_value ps = (\<Sum>pos\<leftarrow>ps. current_price pos * of_int (quantity pos) * 50)"

definition update_equity_curve :: "datetime \<Rightarrow> BacktestEngine \<Rightarrow> BacktestEngine" where
  "update_equity_curve d st =
     (let total_value = current_capital st + position_value (positions st)
      in st\<lparr>equity_curve :=
              equity_curve st
              @ [\<lparr>eq_date = d, equity = total_value, capital = current_capital st,
                  n_positions = length (positions st)\<rparr>]\<rparr>)"

definition process_day ::
  "datetime \<Rightarrow> bar \<Rightarrow> bar list \<Rightarrow> string list option \<Rightarrow> BacktestEngine \<Rightarrow> BacktestEngine" where
  "process_day now row data strategies st =
     (let d = bar_date row;
          st1 = check_exit_signals now d st;
          st2 =
            (if should_enter_trade st1 data
             then (let strat = bt_select_strategy row strategies
                   in if strat \<noteq> [] then enter_trade now d row strat st1 else st1)
             else st1)
      in update_position_values now row st2)"

definition run_backtest ::
  "datetime \<Rightarrow> bar list \<Rightarrow> string list option \<Rightarrow> BacktestEngine \<Rightarrow> BacktestEngine" where
  "run_backtest now data strategies st =
     (if data = [] then st
      else
        (let st0 = st\<lparr>current_capital := initial_capital st, positions := [], trades := [],
                      equity_curve := []\<rparr>;
             st1 = foldl (\<lambda>s row. update_equity_curve (bar_date row)
                                   (process_day now row data strategies s)) st0 data
         in close_all_positions (last data) st1))"

section \<open>option\_pricing.py: OptionPricingEngine.calculate\_portfolio\_greeks\<close>

text \<open>
  The pricing engine's own portfolio sum. A position is a dictionary here, with the
  market data beside the contract; the record has the keys the loop reads.
\<close>

record greeks_position =
  gp_spot_price :: real
  gp_strike_price :: real
  gp_time_to_expiry :: real
  gp_risk_free_rate :: real
  gp_volatility :: real
  gp_option_type :: string
  gp_quantity :: real

fun portfolio_loop :: "greeks_position list \<Rightarrow> Greeks \<Rightarrow> py_error + Greeks" where
  "portfolio_loop [] tot = Inr tot"
| "portfolio_loop (position # rest) tot =
     (let params =
            \<lparr>spot_price = gp_spot_price position, strike_price = gp_strike_price position,
             time_to_expiry = gp_time_to_expiry position,
             risk_free_rate = gp_risk_free_rate position,
             volatility = gp_volatility position, dividend_yield = 0\<rparr>
      in case BlackScholesPricer_calculate_greeks params (gp_option_type position) of
           Inl e \<Rightarrow> Inl e
         | Inr greeks \<Rightarrow>
             portfolio_loop rest
               \<lparr>delta = delta tot + delta greeks * gp_quantity position,
                gamma = gamma tot + gamma greeks * gp_quantity position,
                theta = theta tot + theta greeks * gp_quantity position,
                vega = vega tot + vega greeks * gp_quantity position,
                rho = rho tot + rho greeks * gp_quantity position\<rparr>)"

definition calculate_portfolio_greeks :: "greeks_position list \<Rightarrow> py_error + Greeks" where
  "calculate_portfolio_greeks ps = portfolio_loop ps zero_greeks"

subsection \<open>Strategy Greeks at a given time to expiry\<close>

text \<open>
  The four strategy classes override \<open>OptionStrategy.calculate_greeks\<close>;
  \<open>calculate_greeks\<close> below dispatches on the class. The \<open>spec_\<close> definitions are
  not code of the repository: they state what C8 describes, the sum over the legs of a
  strategy of the signed, weighted Black-Scholes Greeks of each leg, every leg priced
  at a time to expiry \<open>T\<close> that the caller supplies.
\<close>

fun spec_legs_sum ::
  "StrategyParams \<Rightarrow> real \<Rightarrow> (real \<times> string \<times> real) list \<Rightarrow> Greeks \<Rightarrow> py_error + Greeks" where
  "spec_legs_sum sp T [] acc = Inr acc"
| "spec_legs_sum sp T ((strike, opt_type, w) # legs) acc =
     (case BlackScholesPricer_calculate_greeks
             \<lparr>spot_price = sp_spot_price sp, strike_price = strike, time_to_expiry = T,
              risk_free_rate = sp_risk_free_rate sp, volatility = sp_volatility sp,
              dividend_yield = 0\<rparr> opt_type of
        Inl e \<Rightarrow> Inl e
      | Inr g \<Rightarrow>
          spec_legs_sum sp T legs
            \<lparr>delta = delta acc + w * delta g, gamma = gamma acc + w * gamma g,
             theta = theta acc + w * theta g, vega = vega acc + w * vega g,
             rho = rho acc + w * rho g\<rparr>)"

datatype strategy_kind = Straddle | Strangle | IronCondor | Butterfly

fun spec_legs :: "strategy_kind \<Rightarrow> real list \<Rightarrow> (real \<times> string \<times> real) list option" where
  "spec_legs Straddle (k # _) = Some [(k, ''call'', 1), (k, ''put'', 1)]"
| "spec_legs Strangle (k_hi # k_lo # _) = Some [(k_hi, ''call'', 1), (k_lo, ''put'', 1)]"
| "spec_legs IronCondor (k1 # k2 # k3 # k4 # _) =
     Some [(k1, ''put'', 1), (k2, ''put'', - 1), (k3, ''call'', - 1), (k4, ''call'', 1)]"
| "spec_legs Butterfly (k1 # k2 # k3 # _) =
     Some [(k1, ''call'', 1), (k2, ''call'', - 2), (k3, ''call'', 1)]"
| "spec_legs _ _ = None"

definition spec_greeks :: "strategy_kind \<Rightarrow> real \<Rightarrow> StrategyParams \<Rightarrow> py_error + Greeks" where
  "spec_greeks kind T sp =
     (case spec_legs kind (strike_prices sp) of
        None \<Rightarrow> Inl IndexError
      | Some legs \<Rightarrow> spec_legs_sum sp T legs zero_greeks)"

fun calculate_greeks :: "strategy_kind \<Rightarrow> StrategyParams \<Rightarrow> py_error + Greeks" where
  "calculate_greeks Straddle = StraddleStrategy_calculate_greeks"
| "calculate_greeks Strangle = StrangleStrategy_calculate_greeks"
| "calculate_greeks IronCondor = IronCondorStrategy_calculate_greeks"
| "calculate_greeks Butterfly = ButterflyStrategy_calculate_greeks"

section \<open>Example inputs\<close>

definition test_position :: Position where
  \<comment> \<open>the position of \<open>TestRiskManagement.setUp\<close>; 738910 is 2024-01-25, and the
      entry time is a fixed day instead of the clock\<close>
  "test_position =
     \<lparr>symbol = ''NIFTY18000CE'', option_type = ''call'', pos_strike_price = 18000,
      expiry_date = 738910, quantity = 10, entry_price = 150, current_price = 200,
      entry_time = 738890, strategy_name = ''straddle''\<rparr>"

definition test_greeks_position :: greeks_position where
  \<comment> \<open>the same contract, ten calls struck at 18000, with the market data of
      \<open>TestOptionPricing.setUp\<close>\<close>
  "test_greeks_position =
     \<lparr>gp_spot_price = 18000, gp_strike_price = 18000, gp_time_to_expiry = 30 / 365,
      gp_risk_free_rate = 0.05, gp_volatility = 0.25, gp_option_type = ''call'',
      gp_quantity = 10\<rparr>"

definition test_strategy_params :: StrategyParams where
  "test_strategy_params =
     \<lparr>sp_spot_price = 18000, strike_prices = [18000], expiry_dates = [''2024-01-25''],
      option_prices = [''call'' \<mapsto> 150, ''put'' \<mapsto> 120],
      quantities = [''call'' \<mapsto> 1, ''put'' \<mapsto> 1],
      sp_risk_free_rate = 0.05, sp_volatility = 0.25\<rparr>"

text \<open>
  A stand-in for NumPy's generator, for the closed examples: its state is a counter,
  seeding sets the counter, and drawing \<open>n\<close> variates advances it by \<open>n\<close>.
\<close>

definition counter_random :: "nat numpy_random" where
  "counter_random =
     \<lparr>np_seed = (\<lambda>seed. seed),
      np_standard_normal =
        (\<lambda>n g. (map (\<lambda>i. real ((g + i) mod 7) - 3) [0..<n], g + n))\<rparr>"


definition negative_prices_params :: OptionParams where
  "negative_prices_params =
     \<lparr>spot_price = - 100, strike_price = - 200, time_to_expiry = 0,
      risk_free_rate = 0.05, volatility = 0, dividend_yield = 0\<rparr>"

definition test_params :: OptionParams where
  "test_params =
     \<lparr>spot_price = 18000, strike_price = 18000, time_to_expiry = 30 / 365,
      risk_free_rate = 0.05, volatility = 0.25, dividend_yield = 0\<rparr>"

text \<open>
  A stand-in for \<open>minimize_scalar\<close>, for the closed examples: it calls the objective
  once, at the first trial point of SciPy's bounded method, the golden-section point
  \<open>a + (3 - sqrt 5) / 2 * (b - a)\<close> of the bounds, and reports that point as found.
\<close>

definition first_trial_only :: minimize_scalar where
  "first_trial_only f bounds =
     (let (a, b) = bounds; x = a + (3 - sqrt 5) / 2 * (b - a)
      in ([x], case f x of Inl e \<Rightarrow> Inl e | Inr fx \<Rightarrow> Inr (x, True)))"

text \<open>
  Two days of a backtest: Monday 2024-01-22 and Tuesday 2024-01-23 (ordinals 738907
  and 738908), the index closing at 18010 on both. The backtest is run on a later
  day, 2024-04-24 (ordinal 739000), which is what the clock \<open>now\<close> then reads.
\<close>

definition day1 :: bar where
  "day1 = \<lparr>bar_date = 738907, Close = 18010\<rparr>"

definition day2 :: bar where
  "day2 = \<lparr>bar_date = 738908, Close = 18010\<rparr>"

definition later :: datetime where
  "later = 739000"

definition day_at_strike :: bar where
  "day_at_strike = \<lparr>bar_date = 738907, Close = 18000\<rparr>"

text \<open>
  The two positions the engine holds after the first example day, the engine after
  that day, and the trade it records on the second.
\<close>

definition day1_call :: Position where
  "day1_call =
     \<lparr>symbol = ''NIFTY'' @ str_int 18000 @ ''CE'', option_type = ''call'',
      pos_strike_price = 18000, expiry_date = 738910, quantity = 40, entry_price = 10,
      current_price = 10, entry_time = 738907, strategy_name = ''butterfly''\<rparr>"

definition day1_put :: Position where
  "day1_put =
     \<lparr>symbol = ''NIFTY'' @ str_int 18000 @ ''PE'', option_type = ''put'',
      pos_strike_price = 18000, expiry_date = 738910, quantity = 40, entry_price = 0,
      current_price = 0, entry_time = 738907, strategy_name = ''butterfly''\<rparr>"

definition after_day1 :: BacktestEngine where
  "after_day1 =
     (BacktestEngine_init 1000000)
       \<lparr>current_capital := 980000, positions := [day1_call, day1_put]\<rparr>"

definition day2_trade :: Trade where
  "day2_trade =
     \<lparr>entry_date = 738907, exit_date = 738908, strategy = ''butterfly'',
      trade_entry_price = 10, exit_price = 10, trade_quantity = 40, pnl = 0,
      return_pct = 0, duration = 1\<rparr>"

section \<open>Results\<close>

lemma lower_call [simp]: "lower ''call'' = ''call''"
  by (simp add: lower_def lower_char_def)

lemma lower_put [simp]: "lower ''put'' = ''put''"
  by (simp add: lower_def lower_char_def)

text \<open>
  C10. For every market-conditions dictionary, \<open>select_strategy\<close> returns one of
  straddle, strangle and iron\_condor and never butterfly: the butterfly test
  (volatility below 0.15, neutral trend) comes after the iron\_condor test
  (volatility below 0.2, neutral trend), which already holds there.
\<close>

theorem select_strategy_never_butterfly:
  "select_strategy mc \<in> {''straddle'', ''strangle'', ''iron_condor''}
   \<and> select_strategy mc \<noteq> ''butterfly''"
  by (simp add: select_strategy_def Let_def)

text \<open>
  C5. For every position the exit check applies its rules in the order stop-loss,
  take-profit, time-decay and answers with the first that matches, \<open>hold\<close> if none
  does. The stop level of a call is \<open>entry_price * (1 - stop_loss_pct)\<close>; a call is
  stopped when the current price is at or below its stop level, a put when it is at
  or above its own. A call entered at 150 with a stop-loss fraction of 0.02 has the
  stop level 147, and the current price 146 gives \<open>stop_loss\<close>.
\<close>

theorem should_exit_position_priority:
  "(lower (option_type p) = ''call'' \<longrightarrow>
      calculate_stop_loss_level rm (entry_price p) (option_type p)
        = entry_price p * (1 - stop_loss_pct rm))
   \<and> ((lower (option_type p) = ''call''
         \<and> cur \<le> calculate_stop_loss_level rm (entry_price p) (option_type p))
        \<or> (lower (option_type p) = ''put''
            \<and> cur \<ge> calculate_stop_loss_level rm (entry_price p) (option_type p))
       \<longrightarrow> should_exit_position rm now p cur = (True, ''stop_loss''))
   \<and> (\<not> ((lower (option_type p) = ''call''
             \<and> cur \<le> calculate_stop_loss_level rm (entry_price p) (option_type p))
            \<or> (lower (option_type p) = ''put''
                \<and> cur \<ge> calculate_stop_loss_level rm (entry_price p) (option_type p)))
       \<longrightarrow>
         ((lower (option_type p) = ''call''
            \<and> cur \<ge> calculate_take_profit_level rm (entry_price p) (option_type p))
           \<or> (lower (option_type p) = ''put''
               \<and> cur \<le> calculate_take_profit_level rm (entry_price p) (option_type p))
          \<longrightarrow> should_exit_position rm now p cur = (True, ''take_profit''))
         \<and> (\<not> ((lower (option_type p) = ''call''
                   \<and> cur \<ge> calculate_take_profit_level rm (entry_price p) (option_type p))
                  \<or> (lower (option_type p) = ''put''
                      \<and> cur \<le> calculate_take_profit_level rm (entry_price p) (option_type p)))
             \<longrightarrow> should_exit_position rm now p cur
                   = (if days_to_expiry now (expiry_date p) \<le> 7
                      then (True, ''time_decay'') else (False, ''hold''))))
   \<and> (option_type p = ''call'' \<and> entry_price p = 150 \<and> stop_loss_pct rm = 0.02 \<longrightarrow>
         calculate_stop_loss_level rm (entry_price p) (option_type p) = 147
         \<and> should_exit_position rm now p 146 = (True, ''stop_loss''))"
  by (auto simp: should_exit_position_def calculate_stop_loss_level_def Let_def)

theorem should_exit_position_priority_witness:
  "calculate_stop_loss_level RiskManager_init 150 ''call'' = 147
   \<and> should_exit_position RiskManager_init 738890 test_position 146 = (True, ''stop_loss'')
   \<and> should_exit_position RiskManager_init 738890 test_position 160 = (True, ''take_profit'')
   \<and> should_exit_position RiskManager_init 738905.5 test_position 150 = (True, ''time_decay'')
   \<and> should_exit_position RiskManager_init 738890 test_position 150 = (False, ''hold'')"
  using should_exit_position_priority [of test_position RiskManager_init 146 738890]
    should_exit_position_priority [of test_position RiskManager_init 160 738890]
    should_exit_position_priority [of test_position RiskManager_init 150 "738905.5"]
    should_exit_position_priority [of test_position RiskManager_init 150 738890]
  by (simp add: test_position_def RiskManager_init_def calculate_stop_loss_level_def
      calculate_take_profit_level_def days_to_expiry_def)

lemma sum_list_const_mult:
  "(\<Sum>p\<leftarrow>ps. of_int (quantity p) * c) = c * of_int (\<Sum>p\<leftarrow>ps. quantity p)" for c :: real
  by (induction ps) (simp_all add: algebra_simps)

lemma metrics_fields:
  "total_delta (calculate_portfolio_metrics rm prices)
     = (\<Sum>p\<leftarrow>rm_positions rm. of_int (quantity p) * calculate_delta p)"
  "total_gamma (calculate_portfolio_metrics rm prices)
     = (\<Sum>p\<leftarrow>rm_positions rm. of_int (quantity p) * calculate_gamma p)"
  "total_theta (calculate_portfolio_metrics rm prices)
     = (\<Sum>p\<leftarrow>rm_positions rm. of_int (quantity p) * calculate_theta p)"
  "total_vega (calculate_portfolio_metrics rm prices)
     = (\<Sum>p\<leftarrow>rm_positions rm. of_int (quantity p) * calculate_vega p)"
  "total_rho (calculate_portfolio_metrics rm prices)
     = (\<Sum>p\<leftarrow>rm_positions rm. of_int (quantity p) * calculate_rho p)"
  by (simp_all add: calculate_portfolio_metrics_def Let_def split: prod.split)

text \<open>
  C2 (amended). The portfolio Greeks of the risk layer are quantity-weighted sums of
  fixed per-position constants: delta 0.5 for a call and -0.5 for anything else, gamma
  0.01, theta -0.1, vega 0.2, rho 0.05. They do not depend on a position's strike,
  expiry or price, nor on any spot or volatility; for no position they are all 0.
\<close>

theorem portfolio_metrics_placeholder_greeks:
  "total_delta (calculate_portfolio_metrics rm prices)
     = (\<Sum>p\<leftarrow>rm_positions rm.
          of_int (quantity p) * (if lower (option_type p) = ''call'' then 0.5 else - 0.5))
   \<and> total_gamma (calculate_portfolio_metrics rm prices)
       = 0.01 * of_int (\<Sum>p\<leftarrow>rm_positions rm. quantity p)
   \<and> total_theta (calculate_portfolio_metrics rm prices)
       = - 0.1 * of_int (\<Sum>p\<leftarrow>rm_positions rm. quantity p)
   \<and> total_vega (calculate_portfolio_metrics rm prices)
       = 0.2 * of_int (\<Sum>p\<leftarrow>rm_positions rm. quantity p)
   \<and> total_rho (calculate_portfolio_metrics rm prices)
       = 0.05 * of_int (\<Sum>p\<leftarrow>rm_positions rm. quantity p)"
  unfolding metrics_fields calculate_delta_def calculate_gamma_def calculate_theta_def
    calculate_vega_def calculate_rho_def sum_list_const_mult
  by (rule conjI refl)+

subsection \<open>Bounds on the normal density\<close>

lemma norm_pdf_le_half: "norm_pdf x \<le> 1 / 2"
proof -
  have "(4::real) \<le> 2 * pi" using pi_ge_two by linarith
  then have "sqrt 4 \<le> sqrt (2 * pi)" by (rule real_sqrt_le_mono)
  then have "2 \<le> sqrt (2 * pi)" by simp
  then have "1 / sqrt (2 * pi) \<le> 1 / 2" by (simp add: field_simps)
  moreover have "norm_pdf x \<le> 1 / sqrt (2 * pi)"
    unfolding norm_pdf_def by (intro divide_right_mono) simp_all
  ultimately show ?thesis by linarith
qed

lemma norm_pdf_pos: "0 < norm_pdf x"
  by (simp add: norm_pdf_def)

lemma sqrt_30_365: "1 / 4 < sqrt (30 / 365 :: real)"
proof -
  have "(1 / 4)\<^sup>2 < (30 / 365 :: real)" by (simp add: power2_eq_square)
  then have "sqrt ((1 / 4)\<^sup>2) < sqrt (30 / 365 :: real)" by (rule real_sqrt_less_mono)
  then show ?thesis by simp
qed

lemma small_no_overflow: "\<bar>x\<bar> \<le> 1 \<Longrightarrow> \<not> pow2_overflows x"
proof -
  assume "\<bar>x\<bar> \<le> 1"
  then have "x\<^sup>2 \<le> 1" by (simp add: abs_square_le_1)
  moreover have "(2::real) ^ 1024 - 2 ^ 970 = 2 ^ 970 * (2 ^ 54 - 1)"
    by (simp add: algebra_simps flip: power_add)
  moreover have "(1::real) < 2 ^ 970 * (2 ^ 54 - 1)"
  proof -
    have "(1::real) \<le> 2 ^ 970" by simp
    moreover have "(1::real) < 2 ^ 54 - 1" by simp
    ultimately have "1 * 1 < (2::real) ^ 970 * (2 ^ 54 - 1)"
      by (intro mult_le_less_imp_less) simp_all
    then show ?thesis by simp
  qed
  ultimately show ?thesis by (simp add: pow2_overflows_def)
qed

lemma calculate_greeks_gamma:
  assumes "0 < time_to_expiry p" and "strike_price p \<noteq> 0"
    and "\<not> pow2_overflows (volatility p)"
  shows "\<exists>g. BlackScholesPricer_calculate_greeks p ot = Inr g
           \<and> gamma g = exp (- dividend_yield p * time_to_expiry p) * norm_pdf (bs_d1 p)
                        / (spot_price p * volatility p * sqrt (time_to_expiry p))"
  using assms by (simp add: BlackScholesPricer_calculate_greeks_def Let_def)

text \<open>
  C2 as stated fails. For the ten calls struck at 18000 of the test suite the risk
  layer reports a gamma of 0.1, while the pricing engine's Black-Scholes gamma of the
  same ten calls (spot 18000, 30 days, volatility 0.25) is below 0.01.
\<close>

theorem portfolio_greeks_counterexample:
  "total_gamma
     (calculate_portfolio_metrics (RiskManager_init\<lparr>rm_positions := [test_position]\<rparr>) Map.empty)
     = 0.1
   \<and> (case calculate_portfolio_greeks [test_greeks_position] of
        Inl e \<Rightarrow> False
      | Inr g \<Rightarrow> gamma g < 0.01)"
proof
  show "total_gamma
     (calculate_portfolio_metrics (RiskManager_init\<lparr>rm_positions := [test_position]\<rparr>) Map.empty)
     = 0.1"
    by (simp add: calculate_portfolio_metrics_def RiskManager_init_def test_position_def
        calculate_gamma_def Let_def split: prod.split)
next
  define p where "p = \<lparr>spot_price = 18000, strike_price = 18000, time_to_expiry = 30 / 365,
    risk_free_rate = 0.05, volatility = 0.25, dividend_yield = 0\<rparr>"
  have "0 < time_to_expiry p" "strike_price p \<noteq> 0" "\<not> pow2_overflows (volatility p)"
    by (simp_all add: p_def small_no_overflow)
  from calculate_greeks_gamma [OF this, of "''call''"]
  obtain g where g: "BlackScholesPricer_calculate_greeks p ''call'' = Inr g"
    and gg: "gamma g = exp (- dividend_yield p * time_to_expiry p) * norm_pdf (bs_d1 p)
                        / (spot_price p * volatility p * sqrt (time_to_expiry p))"
    by blast
  define s where "s = sqrt (30 / 365 :: real)"
  define f where "f = norm_pdf (bs_d1 p)"
  have s: "1 / 4 < s" unfolding s_def by (rule sqrt_30_365)
  have f: "f \<le> 1 / 2" "0 < f" unfolding f_def by (rule norm_pdf_le_half, rule norm_pdf_pos)
  have gg': "gamma g = f / (4500 * s)"
    using gg by (simp add: p_def s_def f_def)
  have "f / (4500 * s) \<le> (1 / 2) / (4500 * (1 / 4))"
    using f s by (intro frac_le) simp_all
  then have bound: "gamma g * 10 < 0.01" unfolding gg' by simp
  have "calculate_portfolio_greeks [test_greeks_position]
          = Inr \<lparr>delta = 0 + delta g * 10, gamma = 0 + gamma g * 10,
                 theta = 0 + theta g * 10, vega = 0 + vega g * 10, rho = 0 + rho g * 10\<rparr>"
    using g by (simp add: calculate_portfolio_greeks_def test_greeks_position_def p_def
        zero_greeks_def)
  then show "case calculate_portfolio_greeks [test_greeks_position] of
        Inl e \<Rightarrow> False | Inr g \<Rightarrow> gamma g < 0.01"
    using bound by simp
qed

subsection \<open>C8: strategy Greeks\<close>

lemma legs_loop_spec:
  "legs_loop sp legs acc = spec_legs_sum sp (30 / 365) legs acc"
  by (induction legs arbitrary: acc) (auto simp: Let_def mult.commute split: sum.splits)

lemma straddle_spec:
  "StraddleStrategy_calculate_greeks sp = spec_greeks Straddle (30 / 365) sp"
  by (cases "strike_prices sp")
     (auto simp: StraddleStrategy_calculate_greeks_def spec_greeks_def zero_greeks_def Let_def
        split: sum.splits)

lemma strangle_spec:
  "StrangleStrategy_calculate_greeks sp = spec_greeks Strangle (30 / 365) sp"
  by (cases "strike_prices sp"; cases "tl (strike_prices sp)")
     (auto simp: StrangleStrategy_calculate_greeks_def spec_greeks_def zero_greeks_def Let_def
        split: sum.splits list.splits)

lemma iron_condor_spec:
  "IronCondorStrategy_calculate_greeks sp = spec_greeks IronCondor (30 / 365) sp"
  unfolding IronCondorStrategy_calculate_greeks_def spec_greeks_def legs_loop_spec
  by (auto split: list.splits)

lemma butterfly_spec:
  "ButterflyStrategy_calculate_greeks sp = spec_greeks Butterfly (30 / 365) sp"
  unfolding ButterflyStrategy_calculate_greeks_def spec_greeks_def legs_loop_spec
  by (auto split: list.splits)

text \<open>
  C8 (amended). Every strategy computes its Greeks at the fixed horizon of 30/365
  years: the result of \<open>calculate_greeks\<close> is the signed, weighted sum of the
  Black-Scholes Greeks of its legs with 30/365 as each leg's time to expiry (an
  \<open>IndexError\<close> when the strike list is too short), and it is the same for every value
  of \<open>expiry_dates\<close>, the only expiry information the strategy parameters carry.
\<close>

theorem strategy_greeks_fixed_horizon:
  "calculate_greeks kind sp = spec_greeks kind (30 / 365) sp
   \<and> calculate_greeks kind (sp\<lparr>expiry_dates := e\<rparr>) = calculate_greeks kind sp"
proof -
  have a: "calculate_greeks kind sp' = spec_greeks kind (30 / 365) sp'" for sp'
    by (cases kind) (simp_all add: straddle_spec strangle_spec iron_condor_spec butterfly_spec)
  have b: "spec_legs_sum (sp\<lparr>expiry_dates := e\<rparr>) T legs acc = spec_legs_sum sp T legs acc"
    for T legs acc
    by (induction legs arbitrary: acc) (auto split: sum.splits)
  show ?thesis
    by (simp add: a spec_greeks_def b split: option.splits)
qed

lemma sqrt_120_365: "sqrt (120 / 365 :: real) = 2 * sqrt (30 / 365)"
proof -
  have "sqrt (120 / 365 :: real) = sqrt (4 * (30 / 365))" by simp
  also have "\<dots> = sqrt 4 * sqrt (30 / 365)" by (rule real_sqrt_mult)
  finally show ?thesis by simp
qed

lemma gamma_30_gt_gamma_120:
  fixes d d' :: real
  assumes "d\<^sup>2 \<le> 1 / 4"
  shows "norm_pdf d' / (4500 * sqrt (120 / 365)) < norm_pdf d / (4500 * sqrt (30 / 365))"
proof -
  define s where "s = sqrt (30 / 365 :: real)"
  define c where "c = sqrt (2 * pi)"
  have s: "0 < s" unfolding s_def by simp
  have c: "0 < c" unfolding c_def by simp
  have "1 + (- (d\<^sup>2) / 2) \<le> exp (- (d\<^sup>2) / 2)" by (rule exp_ge_add_one_self)
  with assms have lo: "7 / 8 \<le> exp (- (d\<^sup>2) / 2)" by linarith
  have hi: "exp (- (d'\<^sup>2) / 2) \<le> 1" by simp
  have "exp (- (d'\<^sup>2) / 2) < 2 * exp (- (d\<^sup>2) / 2)" using lo hi by linarith
  then have "exp (- (d'\<^sup>2) / 2) / (2 * (c * 4500 * s)) < exp (- (d\<^sup>2) / 2) / (c * 4500 * s)"
    using s c by (simp add: field_simps)
  then show ?thesis
    unfolding norm_pdf_def sqrt_120_365 s_def [symmetric] c_def [symmetric]
    by (simp add: field_simps)
qed

lemma d1_30_small:
  "(bs_d1 \<lparr>spot_price = 18000, strike_price = 18000, time_to_expiry = 30 / 365,
      risk_free_rate = 0.05, volatility = 0.25, dividend_yield = 0\<rparr>)\<^sup>2 \<le> 1 / 4"
proof -
  define s where "s = sqrt (30 / 365 :: real)"
  have s: "1 / 4 < s" unfolding s_def by (rule sqrt_30_365)
  have d: "bs_d1 \<lparr>spot_price = 18000, strike_price = 18000, time_to_expiry = 30 / 365,
      risk_free_rate = 0.05, volatility = 0.25, dividend_yield = 0\<rparr> = (39 / 1460) / s"
    unfolding bs_d1_def s_def by (simp add: power2_eq_square)
  have "0 \<le> (39 / 1460) / s" using s by simp
  moreover have "(39 / 1460) / s \<le> (39 / 1460) / (1 / 4)"
    using s by (intro frac_le) simp_all
  ultimately have "0 \<le> (39 / 1460) / s" "(39 / 1460) / s \<le> 1 / 2" by simp_all
  then have "((39 / 1460) / s)\<^sup>2 \<le> (1 / 2)\<^sup>2" by (intro power_mono) simp_all
  then show ?thesis unfolding d by (simp add: power2_eq_square)
qed

text \<open>
  C8 as stated fails. For the straddle of the test suite (spot and strike 18000, rate
  0.05, volatility 0.25) and a caller whose legs expire in 120 days, the gamma computed
  at the caller's 120/365 is strictly below the gamma that \<open>calculate_greeks\<close>
  returns, which is the gamma at 30/365.
\<close>

theorem strategy_greeks_counterexample:
  "(case (calculate_greeks Straddle test_strategy_params,
          spec_greeks Straddle (120 / 365) test_strategy_params) of
      (Inr g, Inr g') \<Rightarrow> gamma g' < gamma g
    | _ \<Rightarrow> False)"
proof -
  define p where "p = \<lparr>spot_price = 18000, strike_price = 18000, time_to_expiry = 30 / 365,
    risk_free_rate = 0.05, volatility = 0.25, dividend_yield = 0\<rparr>"
  define p' where "p' = \<lparr>spot_price = 18000, strike_price = 18000, time_to_expiry = 120 / 365,
    risk_free_rate = 0.05, volatility = 0.25, dividend_yield = 0\<rparr>"
  have pos: "0 < time_to_expiry p" "strike_price p \<noteq> 0" "\<not> pow2_overflows (volatility p)"
    "0 < time_to_expiry p'" "strike_price p' \<noteq> 0" "\<not> pow2_overflows (volatility p')"
    by (simp_all add: p_def p'_def small_no_overflow)
  obtain c where c: "BlackScholesPricer_calculate_greeks p ''call'' = Inr c"
    and gc: "gamma c = exp (- dividend_yield p * time_to_expiry p) * norm_pdf (bs_d1 p)
                        / (spot_price p * volatility p * sqrt (time_to_expiry p))"
    using calculate_greeks_gamma [OF pos(1,2,3), of "''call''"] by blast
  obtain u where u: "BlackScholesPricer_calculate_greeks p ''put'' = Inr u"
    and gu: "gamma u = exp (- dividend_yield p * time_to_expiry p) * norm_pdf (bs_d1 p)
                        / (spot_price p * volatility p * sqrt (time_to_expiry p))"
    using calculate_greeks_gamma [OF pos(1,2,3), of "''put''"] by blast
  obtain c' where c': "BlackScholesPricer_calculate_greeks p' ''call'' = Inr c'"
    and gc': "gamma c' = exp (- dividend_yield p' * time_to_expiry p') * norm_pdf (bs_d1 p')
                        / (spot_price p' * volatility p' * sqrt (time_to_expiry p'))"
    using calculate_greeks_gamma [OF pos(4,5,6), of "''call''"] by blast
  obtain u' where u': "BlackScholesPricer_calculate_greeks p' ''put'' = Inr u'"
    and gu': "gamma u' = exp (- dividend_yield p' * time_to_expiry p') * norm_pdf (bs_d1 p')
                        / (spot_price p' * volatility p' * sqrt (time_to_expiry p'))"
    using calculate_greeks_gamma [OF pos(4,5,6), of "''put''"] by blast
  have small: "(bs_d1 p)\<^sup>2 \<le> 1 / 4" unfolding p_def by (rule d1_30_small)
  have lt: "norm_pdf (bs_d1 p') / (4500 * sqrt (120 / 365))
            < norm_pdf (bs_d1 p) / (4500 * sqrt (30 / 365))"
    using small by (rule gamma_30_gt_gamma_120)
  have g30: "gamma c = norm_pdf (bs_d1 p) / (4500 * sqrt (30 / 365))" "gamma u = gamma c"
    unfolding gc gu by (simp_all add: p_def)
  have g120: "gamma c' = norm_pdf (bs_d1 p') / (4500 * sqrt (120 / 365))" "gamma u' = gamma c'"
    unfolding gc' gu' by (simp_all add: p'_def)
  have code: "calculate_greeks Straddle test_strategy_params
        = Inr \<lparr>delta = delta c + delta u, gamma = gamma c + gamma u,
               theta = theta c + theta u, vega = vega c + vega u, rho = rho c + rho u\<rparr>"
    using c u by (simp add: StraddleStrategy_calculate_greeks_def test_strategy_params_def p_def)
  have spec: "spec_greeks Straddle (120 / 365) test_strategy_params
        = Inr \<lparr>delta = 0 + 1 * delta c' + 1 * delta u', gamma = 0 + 1 * gamma c' + 1 * gamma u',
               theta = 0 + 1 * theta c' + 1 * theta u', vega = 0 + 1 * vega c' + 1 * vega u',
               rho = 0 + 1 * rho c' + 1 * rho u'\<rparr>"
    using c' u' by (simp add: spec_greeks_def test_strategy_params_def p'_def zero_greeks_def)
  have "gamma c' < gamma c" unfolding g30 g120 by (rule lt)
  then show ?thesis unfolding code spec using g30(2) g120(2) by simp
qed

subsection \<open>C9: the frame of the pricing calls\<close>

lemma sqrt_5_less: "sqrt 5 < 5 / 2"
proof -
  have "(5 :: real) < (5 / 2)\<^sup>2" by (simp add: power2_eq_square)
  then have "sqrt 5 < sqrt ((5 / 2)\<^sup>2 :: real)" by (rule real_sqrt_less_mono)
  then show ?thesis by simp
qed

text \<open>
  C9 fails in the code. \<open>calculate_price\<close> and \<open>calculate_greeks\<close> only read their
  \<open>OptionParams\<close>, but \<open>implied_volatility\<close> does not leave it unchanged: whenever the
  optimiser calls the objective at all, the caller's \<open>OptionParams\<close> comes back with
  its volatility set to the last trial point of the search, every other field as it
  was. In the example below a volatility of 0.25 comes back as a value above 1.
\<close>

theorem implied_volatility_overwrites_volatility:
  assumes "fst (minimize (objective market_price params ot) (0.01, 5.0)) \<noteq> []"
  shows "snd (implied_volatility minimize market_price params ot)
           = params\<lparr>volatility :=
                last (fst (minimize (objective market_price params ot) (0.01, 5.0)))\<rparr>"
proof (cases "minimize (objective market_price params ot) (0.01, 5.0)")
  case (Pair trials outcome)
  with assms show ?thesis
    by (cases outcome) (auto simp: implied_volatility_def Let_def split: prod.splits)
qed

theorem implied_volatility_overwrites_volatility_witness:
  "fst (first_trial_only (objective 500 test_params ''call'') (0.01, 5.0)) \<noteq> []
   \<and> volatility test_params = 0.25
   \<and> volatility (snd (implied_volatility first_trial_only 500 test_params ''call''))
       = 0.01 + (3 - sqrt 5) / 2 * 4.99
   \<and> volatility (snd (implied_volatility first_trial_only 500 test_params ''call'')) > 1"
proof -
  have ne: "fst (first_trial_only (objective 500 test_params ''call'') (0.01, 5.0)) \<noteq> []"
    by (simp add: first_trial_only_def Let_def)
  have v: "volatility (snd (implied_volatility first_trial_only 500 test_params ''call''))
       = 0.01 + (3 - sqrt 5) / 2 * 4.99"
    using ne implied_volatility_overwrites_volatility [of first_trial_only 500 test_params "''call''"]
    by (simp add: first_trial_only_def Let_def)
  have "1 < 0.01 + (3 - x) / 2 * (4.99 :: real)" if "x < 5 / 2" for x :: real
    using that by (simp add: field_simps)
  from this [OF sqrt_5_less] have "1 < 0.01 + (3 - sqrt 5) / 2 * (4.99 :: real)" .
  with ne v show ?thesis by (simp add: test_params_def)
qed

subsection \<open>C7: invalid inputs\<close>

lemma calculate_price_expired:
  "time_to_expiry params \<le> 0 \<Longrightarrow>
   BlackScholesPricer_calculate_price params ot
     = Inr (if lower ot = ''call'' then max (spot_price params - strike_price params) 0
            else max (strike_price params - spot_price params) 0)"
  by (simp add: BlackScholesPricer_calculate_price_def Let_def)







subsection \<open>C6: the random source of the Monte Carlo pricer\<close>

lemma monte_carlo_result:
  "fst (MonteCarloPricer_calculate_price np params ot simulations g)
     = fst (MonteCarloPricer_calculate_price np params ot simulations g')"
  by (simp add: MonteCarloPricer_calculate_price_def Let_def split: prod.split)

lemma monte_carlo_state:
  "snd (MonteCarloPricer_calculate_price np params ot simulations g)
     = (if time_to_expiry params \<le> 0 then g
        else snd (np_standard_normal np simulations (np_seed np 42)))"
  by (simp add: MonteCarloPricer_calculate_price_def Let_def split: prod.split)

lemma monte_carlo_expired:
  "time_to_expiry params \<le> 0 \<Longrightarrow>
   MonteCarloPricer_calculate_price np params ot simulations g
     = (Inr (if lower ot = ''call'' then max (spot_price params - strike_price params) 0
             else max (strike_price params - spot_price params) 0, 0), g)"
  by (simp add: MonteCarloPricer_calculate_price_def Let_def)

lemma monte_carlo_price:
  "0 < time_to_expiry params \<Longrightarrow> \<not> pow2_overflows (volatility params) \<Longrightarrow>
   fst (MonteCarloPricer_calculate_price np params ot simulations g)
     = (let Z = fst (np_standard_normal np simulations (np_seed np 42));
            ST = map (\<lambda>z. spot_price params
                          * exp ((risk_free_rate params - dividend_yield params
                                  - 0.5 * (volatility params)\<^sup>2) * time_to_expiry params
                                 + volatility params * sqrt (time_to_expiry params) * z)) Z;
            payoffs =
              (if lower ot = ''call'' then map (\<lambda>s. max (s - strike_price params) 0) ST
               else map (\<lambda>s. max (strike_price params - s) 0) ST)
        in Inr (exp (- risk_free_rate params * time_to_expiry params) * mean payoffs,
                exp (- risk_free_rate params * time_to_expiry params) * np_std payoffs
                  / sqrt (real simulations)))"
  by (simp add: MonteCarloPricer_calculate_price_def Let_def split: prod.split)

text \<open>
  C6 (amended). The Monte Carlo pricer takes no seed and no generator. For a time to
  expiry of 0 or less it returns the intrinsic payoff with standard error 0 and does
  not touch the generator. For a positive time to expiry each call seeds NumPy's
  process-wide generator with the constant 42 and draws \<open>simulations\<close> variates from
  it, and leaves the generator in the state reached by that; when moreover
  \<open>simulations\<close> is positive and the square of the volatility does not overflow, the
  price is the discounted mean, and the standard error the discounted population
  standard deviation over the square root of \<open>simulations\<close>, of the payoffs at the
  terminal prices made from exactly these variates. So the price and the standard
  error are the same whatever the state of the generator before the call.
\<close>

theorem monte_carlo_global_seed:
  "(time_to_expiry params \<le> 0 \<longrightarrow>
      MonteCarloPricer_calculate_price np params ot simulations g
        = (Inr (if lower ot = ''call'' then max (spot_price params - strike_price params) 0
                else max (strike_price params - spot_price params) 0, 0), g))
   \<and> (0 < time_to_expiry params \<longrightarrow>
      snd (MonteCarloPricer_calculate_price np params ot simulations g)
        = snd (np_standard_normal np simulations (np_seed np 42)))
   \<and> (0 < time_to_expiry params \<and> 0 < simulations \<and> \<not> pow2_overflows (volatility params) \<longrightarrow>
      fst (MonteCarloPricer_calculate_price np params ot simulations g)
        = (let Z = fst (np_standard_normal np simulations (np_seed np 42));
               ST = map (\<lambda>z. spot_price params
                             * exp ((risk_free_rate params - dividend_yield params
                                     - 0.5 * (volatility params)\<^sup>2) * time_to_expiry params
                                    + volatility params * sqrt (time_to_expiry params) * z)) Z;
               payoffs =
                 (if lower ot = ''call'' then map (\<lambda>s. max (s - strike_price params) 0) ST
                  else map (\<lambda>s. max (strike_price params - s) 0) ST)
           in Inr (exp (- risk_free_rate params * time_to_expiry params) * mean payoffs,
                   exp (- risk_free_rate params * time_to_expiry params) * np_std payoffs
                     / sqrt (real simulations))))
   \<and> fst (MonteCarloPricer_calculate_price np params ot simulations g)
       = fst (MonteCarloPricer_calculate_price np params ot simulations g')"
proof (intro conjI impI)
  assume "time_to_expiry params \<le> 0"
  then show "MonteCarloPricer_calculate_price np params ot simulations g
        = (Inr (if lower ot = ''call'' then max (spot_price params - strike_price params) 0
                else max (strike_price params - spot_price params) 0, 0), g)"
    by (rule monte_carlo_expired)
next
  assume "0 < time_to_expiry params"
  then show "snd (MonteCarloPricer_calculate_price np params ot simulations g)
        = snd (np_standard_normal np simulations (np_seed np 42))"
    by (simp add: monte_carlo_state)
next
  assume "0 < time_to_expiry params \<and> 0 < simulations \<and> \<not> pow2_overflows (volatility params)"
  then show "fst (MonteCarloPricer_calculate_price np params ot simulations g)
        = (let Z = fst (np_standard_normal np simulations (np_seed np 42));
               ST = map (\<lambda>z. spot_price params
                             * exp ((risk_free_rate params - dividend_yield params
                                     - 0.5 * (volatility params)\<^sup>2) * time_to_expiry params
                                    + volatility params * sqrt (time_to_expiry params) * z)) Z;
               payoffs =
                 (if lower ot = ''call'' then map (\<lambda>s. max (s - strike_price params) 0) ST
                  else map (\<lambda>s. max (strike_price params - s) 0) ST)
           in Inr (exp (- risk_free_rate params * time_to_expiry params) * mean payoffs,
                   exp (- risk_free_rate params * time_to_expiry params) * np_std payoffs
                     / sqrt (real simulations)))"
    using monte_carlo_price [of params np ot simulations g] by blast
next
  show "fst (MonteCarloPricer_calculate_price np params ot simulations g)
       = fst (MonteCarloPricer_calculate_price np params ot simulations g')"
    by (rule monte_carlo_result)
qed

theorem monte_carlo_global_seed_witness:
  "time_to_expiry negative_prices_params \<le> 0
   \<and> MonteCarloPricer_calculate_price counter_random negative_prices_params ''call'' 100000 7
       = (Inr (100, 0), 7)
   \<and> 0 < time_to_expiry test_params \<and> (0::nat) < 100000
   \<and> \<not> pow2_overflows (volatility test_params)
   \<and> snd (MonteCarloPricer_calculate_price counter_random test_params ''call'' 100000 7)
       = 100042
   \<and> (\<exists>price std_error.
         fst (MonteCarloPricer_calculate_price counter_random test_params ''call'' 100000 7)
           = Inr (price, std_error))"
proof -
  have a: "time_to_expiry negative_prices_params \<le> 0"
    by (simp add: negative_prices_params_def)
  have b: "0 < time_to_expiry test_params" "\<not> pow2_overflows (volatility test_params)"
    by (simp_all add: test_params_def small_no_overflow)
  have 1: "MonteCarloPricer_calculate_price counter_random negative_prices_params ''call'' 100000 7
       = (Inr (100, 0), 7)"
    using monte_carlo_global_seed [of negative_prices_params counter_random "''call''" 100000 7] a
    by (simp add: negative_prices_params_def)
  have 2: "snd (MonteCarloPricer_calculate_price counter_random test_params ''call'' 100000 7)
       = 100042"
    using monte_carlo_global_seed [of test_params counter_random "''call''" 100000 7] b
    by (simp add: counter_random_def)
  have 3: "\<exists>price std_error.
         fst (MonteCarloPricer_calculate_price counter_random test_params ''call'' 100000 7)
           = Inr (price, std_error)"
    using monte_carlo_global_seed [of test_params counter_random "''call''" 100000 7] b
    by (simp add: Let_def)
  from a b 1 2 3 show ?thesis by simp
qed

text \<open>
  C6 as stated fails. With the counter generator in state 0, one Monte Carlo pricing
  of the test suite's call leaves the process-wide generator in state 100042: the
  call has reseeded and advanced the global state.
\<close>

theorem monte_carlo_global_state_counterexample:
  "snd (MonteCarloPricer_calculate_price counter_random test_params ''call'' 100000 0) = 100042
   \<and> snd (price_option counter_random test_params ''call'' ''monte_carlo'' 0) \<noteq> 0"
proof -
  have a: "snd (MonteCarloPricer_calculate_price counter_random test_params ''call'' 100000 0)
             = 100042"
    unfolding monte_carlo_state by (simp add: test_params_def counter_random_def)
  have "snd (price_option counter_random test_params ''call'' ''monte_carlo'' 0)
          = snd (MonteCarloPricer_calculate_price counter_random test_params ''call'' 100000 0)"
    by (simp add: price_option_def split: prod.split sum.split)
  with a show ?thesis by simp
qed

subsection \<open>C3: positions opened on entry\<close>

lemma atm_18010: "get_atm_strike 18010 = 18000"
  by (simp add: get_atm_strike_def py_round_def Let_def)

lemma next_expiry_day1: "get_next_expiry 738907 = 738910"
  by (simp add: get_next_expiry_def weekday_def Let_def)

lemma expired_price:
  "of_int expiry < now \<Longrightarrow>
   calculate_option_price now spot strike expiry ot
     = (if lower ot = ''call'' then max (spot - strike) 0 else max (strike - spot) 0)"
  by (simp add: calculate_option_price_def days_to_expiry_def price_black_scholes_def
      BlackScholesPricer_calculate_price_def BlackScholesPricer_calculate_greeks_def Let_def
      divide_le_0_iff floor_le_iff)

lemma size_day1: "calculate_position_size (BacktestEngine_init 1000000) 10 = 40"
  by (simp add: calculate_position_size_def BacktestEngine_init_def py_int_def Let_def)

lemma bt_select_strategy_butterfly: "bt_select_strategy row strategies = ''butterfly''"
  by (simp add: bt_select_strategy_def calculate_volatility_def Let_def)

lemma atm_18000: "get_atm_strike 18000 = 18000"
  by (simp add: get_atm_strike_def py_round_def Let_def)

lemma size_zero: "calculate_position_size st 0 = 0"
  by (simp add: calculate_position_size_def Let_def)

text \<open>
  C3 (amended). \<open>_enter_trade\<close> prices a call and a put at the at-the-money strike
  and the next expiry and sizes the trade from the sum of the two prices. When that
  size is not positive it changes nothing. When it is positive it appends exactly two
  positions to those already held, whatever strategy name was selected: a call and a
  put, both at the at-the-money strike and the next expiry, both of the computed
  size, each entered and marked at its own price on the day of entry and labelled
  with the selected strategy name; the capital goes down by the sum of the two prices
  times the size times the lot size 50, and nothing else of the engine changes.
\<close>

theorem enter_trade_opens_call_put_pair:
  "(let strike = get_atm_strike (Close row);
        expiry = get_next_expiry d;
        call_price = calculate_option_price now (Close row) (of_int strike) expiry ''call'';
        put_price = calculate_option_price now (Close row) (of_int strike) expiry ''put'';
        size = calculate_position_size st (call_price + put_price);
        st' = enter_trade now d row strat st
    in (size \<le> 0 \<longrightarrow> st' = st)
     \<and> (0 < size \<longrightarrow>
          (\<exists>c p. positions st' = positions st @ [c, p]
             \<and> option_type c = ''call'' \<and> option_type p = ''put''
             \<and> symbol c = ''NIFTY'' @ str_int strike @ ''CE''
             \<and> symbol p = ''NIFTY'' @ str_int strike @ ''PE''
             \<and> pos_strike_price c = of_int strike \<and> pos_strike_price p = of_int strike
             \<and> expiry_date c = expiry \<and> expiry_date p = expiry
             \<and> quantity c = size \<and> quantity p = size
             \<and> entry_price c = call_price \<and> entry_price p = put_price
             \<and> current_price c = call_price \<and> current_price p = put_price
             \<and> entry_time c = d \<and> entry_time p = d
             \<and> strategy_name c = strat \<and> strategy_name p = strat)
          \<and> current_capital st'
              = current_capital st - (call_price + put_price) * of_int size * 50
          \<and> trades st' = trades st \<and> equity_curve st' = equity_curve st
          \<and> initial_capital st' = initial_capital st \<and> risk_manager st' = risk_manager st))"
  by (simp add: enter_trade_def Let_def)

theorem enter_trade_opens_call_put_pair_witness:
  "calculate_position_size (BacktestEngine_init 1000000)
     (calculate_option_price later (Close day1) (of_int (get_atm_strike (Close day1)))
        (get_next_expiry 738907) ''call''
      + calculate_option_price later (Close day1) (of_int (get_atm_strike (Close day1)))
        (get_next_expiry 738907) ''put'') = 40
   \<and> map quantity
         (positions (enter_trade later 738907 day1 ''butterfly'' (BacktestEngine_init 1000000)))
       = [40, 40]
   \<and> map entry_price
         (positions (enter_trade later 738907 day1 ''butterfly'' (BacktestEngine_init 1000000)))
       = [10, 0]
   \<and> current_capital (enter_trade later 738907 day1 ''butterfly'' (BacktestEngine_init 1000000))
       = 980000
   \<and> calculate_position_size (BacktestEngine_init 1000000)
     (calculate_option_price later (Close day_at_strike)
        (of_int (get_atm_strike (Close day_at_strike))) (get_next_expiry 738907) ''call''
      + calculate_option_price later (Close day_at_strike)
        (of_int (get_atm_strike (Close day_at_strike))) (get_next_expiry 738907) ''put'') = 0
   \<and> enter_trade later 738907 day_at_strike ''butterfly'' (BacktestEngine_init 1000000)
       = BacktestEngine_init 1000000"
proof -
  have c: "calculate_option_price later 18010 18000 738910 ''call'' = 10"
    and p: "calculate_option_price later 18010 18000 738910 ''put'' = 0"
    and c0: "calculate_option_price later 18000 18000 738910 ''call'' = 0"
    and p0: "calculate_option_price later 18000 18000 738910 ''put'' = 0"
    by (simp_all add: expired_price later_def)
  have s1: "calculate_position_size (BacktestEngine_init 1000000)
     (calculate_option_price later (Close day1) (of_int (get_atm_strike (Close day1)))
        (get_next_expiry 738907) ''call''
      + calculate_option_price later (Close day1) (of_int (get_atm_strike (Close day1)))
        (get_next_expiry 738907) ''put'') = 40"
    by (simp add: day1_def atm_18010 next_expiry_day1 c p size_day1)
  have s0: "calculate_position_size (BacktestEngine_init 1000000)
     (calculate_option_price later (Close day_at_strike)
        (of_int (get_atm_strike (Close day_at_strike))) (get_next_expiry 738907) ''call''
      + calculate_option_price later (Close day_at_strike)
        (of_int (get_atm_strike (Close day_at_strike))) (get_next_expiry 738907) ''put'') = 0"
    by (simp add: day_at_strike_def atm_18000 next_expiry_day1 c0 p0 size_zero)
  have cap: "current_capital (BacktestEngine_init 1000000) = 1000000"
    and pos: "positions (BacktestEngine_init 1000000) = []"
    by (simp_all add: BacktestEngine_init_def)
  have 1: "map quantity
         (positions (enter_trade later 738907 day1 ''butterfly'' (BacktestEngine_init 1000000)))
       = [40, 40]
   \<and> map entry_price
         (positions (enter_trade later 738907 day1 ''butterfly'' (BacktestEngine_init 1000000)))
       = [10, 0]
   \<and> current_capital (enter_trade later 738907 day1 ''butterfly'' (BacktestEngine_init 1000000))
       = 980000"
    using enter_trade_opens_call_put_pair
            [of day1 738907 later "BacktestEngine_init 1000000" "''butterfly''"] s1
    by (auto simp: Let_def day1_def atm_18010 next_expiry_day1 c p cap pos)
  have 2: "enter_trade later 738907 day_at_strike ''butterfly'' (BacktestEngine_init 1000000)
       = BacktestEngine_init 1000000"
    using enter_trade_opens_call_put_pair
            [of day_at_strike 738907 later "BacktestEngine_init 1000000" "''butterfly''"] s0
    by (simp add: Let_def)
  from s1 s0 1 2 show ?thesis by simp
qed

lemma enter_trade_day1:
  "map option_type (positions (enter_trade later 738907 day1 strat (BacktestEngine_init 1000000)))
     = [''call'', ''put'']
   \<and> map pos_strike_price
         (positions (enter_trade later 738907 day1 strat (BacktestEngine_init 1000000)))
     = [18000, 18000]"
proof -
  have c: "calculate_option_price later 18010 18000 738910 ''call'' = 10"
    and p: "calculate_option_price later 18010 18000 738910 ''put'' = 0"
    by (simp_all add: expired_price later_def)
  show ?thesis
    by (simp add: enter_trade_def day1_def atm_18010 next_expiry_day1 c p size_day1 Let_def)
      (simp add: BacktestEngine_init_def)
qed

lemma should_enter_day1: "should_enter_trade (BacktestEngine_init 1000000) [day1]"
  by (simp add: should_enter_trade_def BacktestEngine_init_def calculate_volatility_def Let_def)

lemma update_position_values_option_type:
  "map option_type (positions (update_position_values now row st))
     = map option_type (positions st)"
  by (simp add: update_position_values_def comp_def)

lemma check_exit_signals_no_positions:
  "positions st = [] \<Longrightarrow> check_exit_signals now d st = st"
  by (simp add: check_exit_signals_def)

text \<open>
  C3 as stated fails. On the first day of the example the entry conditions hold and
  the engine's selector returns \<open>butterfly\<close>, yet the positions after that day are
  one call and one put, not three calls; and entering with \<open>iron_condor\<close> opens two
  positions, both struck at 18000, not four at distinct strikes.
\<close>

theorem enter_trade_legs_counterexample:
  "should_enter_trade (BacktestEngine_init 1000000) [day1]
   \<and> bt_select_strategy day1 None = ''butterfly''
   \<and> map option_type
         (positions (process_day later day1 [day1] None (BacktestEngine_init 1000000)))
       = [''call'', ''put'']
   \<and> map pos_strike_price
         (positions (enter_trade later 738907 day1 ''iron_condor'' (BacktestEngine_init 1000000)))
       = [18000, 18000]"
proof -
  have "positions (BacktestEngine_init 1000000) = []" by (simp add: BacktestEngine_init_def)
  then have "check_exit_signals later 738907 (BacktestEngine_init 1000000)
               = BacktestEngine_init 1000000"
    by (rule check_exit_signals_no_positions)
  then have "process_day later day1 [day1] None (BacktestEngine_init 1000000)
        = update_position_values later day1
            (enter_trade later 738907 day1 ''butterfly'' (BacktestEngine_init 1000000))"
    using should_enter_day1
    by (simp add: process_day_def bt_select_strategy_butterfly Let_def day1_def)
  then show ?thesis
    using should_enter_day1 bt_select_strategy_butterfly [of day1 None]
      enter_trade_day1 [of "''butterfly''"] enter_trade_day1 [of "''iron_condor''"]
    by (simp add: update_position_values_option_type)
qed

subsection \<open>C1: capital conservation\<close>

lemma position_value_remove1:
  "position \<in> set ps \<Longrightarrow>
   position_value (remove1 position ps)
     = position_value ps - current_price position * of_int (quantity position) * 50"
  unfolding position_value_def
  by (induction ps) auto

lemma recorded_equity:
  "equity (last (equity_curve (update_equity_curve d st)))
     = current_capital st + position_value (positions st)"
  by (simp add: update_equity_curve_def Let_def)

lemma enter_trade_conserves_equity:
  "current_capital (enter_trade now d row strat st)
     + position_value (positions (enter_trade now d row strat st))
   = current_capital st + position_value (positions st)"
  by (simp add: enter_trade_def Let_def position_value_def algebra_simps)

lemma enter_trade_day1_state:
  "enter_trade later 738907 day1 ''butterfly'' (BacktestEngine_init 1000000)
     = (BacktestEngine_init 1000000)
         \<lparr>current_capital := 980000, positions := [day1_call, day1_put]\<rparr>"
proof -
  have c: "calculate_option_price later 18010 18000 738910 ''call'' = 10"
    and p: "calculate_option_price later 18010 18000 738910 ''put'' = 0"
    by (simp_all add: expired_price later_def)
  show ?thesis
    by (simp add: enter_trade_def day1_def atm_18010 next_expiry_day1 c p size_day1 Let_def
        day1_call_def day1_put_def)
      (simp add: BacktestEngine_init_def)
qed

text \<open>
  C1 fails in the code. \<open>_enter_trade\<close> takes the whole premium out of the capital
  and books it as the value of the new positions, so that entering leaves the equity
  as it was (\<open>enter_trade_conserves_equity\<close>). \<open>_close_position\<close> gives back only the
  profit or loss and drops the position's value: closing a held position whose entry
  price is not 0 lowers the equity that \<open>_update_equity_curve\<close> records by the entry
  price times the quantity times the lot size 50, while the realized profit or loss is
  the price change times the quantity times 50. In the example below a call is closed
  at the price it was entered at: the realized profit is 0 and the equity falls from
  1000000 to 980000.
\<close>

theorem close_position_loses_entry_premium:
  assumes "position \<in> set (positions st)" and "entry_price position \<noteq> 0"
  shows "equity (last (equity_curve (update_equity_curve d (close_position position d reason st))))
           = equity (last (equity_curve (update_equity_curve d st)))
             - entry_price position * of_int (quantity position) * 50
         \<and> pnl (last (trades (close_position position d reason st)))
           = (current_price position - entry_price position) * of_int (quantity position) * 50
         \<and> current_capital (close_position position d reason st)
           = current_capital st
             + (current_price position - entry_price position) * of_int (quantity position) * 50
         \<and> positions (close_position position d reason st) = remove1 position (positions st)"
  using assms
  by (simp add: recorded_equity close_position_def Let_def position_value_remove1 algebra_simps)

theorem close_position_loses_entry_premium_witness:
  "day1_call \<in> set (positions (enter_trade later 738907 day1 ''butterfly'' (BacktestEngine_init 1000000)))
   \<and> entry_price day1_call \<noteq> 0
   \<and> equity (last (equity_curve (update_equity_curve 738908
         (enter_trade later 738907 day1 ''butterfly'' (BacktestEngine_init 1000000))))) = 1000000
   \<and> pnl (last (trades (close_position day1_call 738908 ''time_decay''
         (enter_trade later 738907 day1 ''butterfly'' (BacktestEngine_init 1000000))))) = 0
   \<and> equity (last (equity_curve (update_equity_curve 738908
         (close_position day1_call 738908 ''time_decay''
           (enter_trade later 738907 day1 ''butterfly'' (BacktestEngine_init 1000000))))))
       = 980000"
proof -
  define st where "st = enter_trade later 738907 day1 ''butterfly'' (BacktestEngine_init 1000000)"
  have st: "st = (BacktestEngine_init 1000000)
         \<lparr>current_capital := 980000, positions := [day1_call, day1_put]\<rparr>"
    unfolding st_def by (rule enter_trade_day1_state)
  have a: "day1_call \<in> set (positions st)" by (simp add: st)
  have b: "entry_price day1_call \<noteq> 0" by (simp add: day1_call_def)
  have c: "equity (last (equity_curve (update_equity_curve 738908 st))) = 1000000"
    by (simp add: recorded_equity st position_value_def day1_call_def day1_put_def)
  have "pnl (last (trades (close_position day1_call 738908 ''time_decay'' st))) = 0
      \<and> equity (last (equity_curve (update_equity_curve 738908
           (close_position day1_call 738908 ''time_decay'' st)))) = 980000"
    using close_position_loses_entry_premium [OF a b, of 738908 "''time_decay''"] c
    by (simp add: day1_call_def)
  with a b c show ?thesis unfolding st_def by simp
qed

text \<open>
  The same loss in a whole run: two days at an unchanged close of 18010. The equity
  curve reads 1000000 after the first day and 980000 after the second, on which the
  call is closed with a realized profit of 0 and the put, still held, is marked at 0
  on both days.
\<close>

lemma update_position_values_day:
  "update_position_values later \<lparr>bar_date = d, Close = 18010\<rparr>
     (st\<lparr>positions := [day1_call, day1_put]\<rparr>) = st\<lparr>positions := [day1_call, day1_put]\<rparr>"
  "update_position_values later \<lparr>bar_date = d, Close = 18010\<rparr>
     (st\<lparr>positions := [day1_put]\<rparr>) = st\<lparr>positions := [day1_put]\<rparr>"
  by (simp_all add: update_position_values_def expired_price later_def day1_call_def day1_put_def)

lemma process_day1:
  "process_day later day1 [day1, day2] None (BacktestEngine_init 1000000) = after_day1"
proof -
  have e: "check_exit_signals later 738907 (BacktestEngine_init 1000000)
             = BacktestEngine_init 1000000"
    by (rule check_exit_signals_no_positions) (simp add: BacktestEngine_init_def)
  have s: "should_enter_trade (BacktestEngine_init 1000000) [day1, day2]"
    by (simp add: should_enter_trade_def BacktestEngine_init_def calculate_volatility_def Let_def)
  have "process_day later day1 [day1, day2] None (BacktestEngine_init 1000000)
        = update_position_values later day1
            (enter_trade later 738907 day1 ''butterfly'' (BacktestEngine_init 1000000))"
    using e s by (simp add: process_day_def bt_select_strategy_butterfly Let_def day1_def)
  also have "\<dots> = after_day1"
    unfolding enter_trade_day1_state after_day1_def
    by (simp add: day1_def update_position_values_day)
  finally show ?thesis .
qed

lemma exit_signals_day2:
  "should_exit_position RiskManager_init later day1_call 10 = (True, ''time_decay'')"
  "should_exit_position RiskManager_init later day1_put 0 = (True, ''stop_loss'')"
  by (simp_all add: should_exit_position_def calculate_stop_loss_level_def
      calculate_take_profit_level_def RiskManager_init_def day1_call_def day1_put_def
      days_to_expiry_def later_def Let_def)

lemma check_exit_signals_day2:
  "check_exit_signals later 738908 (after_day1\<lparr>equity_curve := ec\<rparr>)
     = after_day1\<lparr>equity_curve := ec, trades := [day2_trade], positions := [day1_put]\<rparr>"
proof -
  have rm: "risk_manager (after_day1\<lparr>equity_curve := ec\<rparr>) = RiskManager_init"
    and ps: "positions (after_day1\<lparr>equity_curve := ec\<rparr>) = [day1_call, day1_put]"
    by (simp_all add: after_day1_def BacktestEngine_init_def)
  have cp: "current_price day1_call = 10" "current_price day1_put = 0"
    by (simp_all add: day1_call_def day1_put_def)
  have c1: "close_position day1_call 738908 ''time_decay'' (after_day1\<lparr>equity_curve := ec\<rparr>)
        = after_day1\<lparr>equity_curve := ec, trades := [day2_trade], positions := [day1_put]\<rparr>"
    by (simp add: close_position_def after_day1_def BacktestEngine_init_def day1_call_def
        day2_trade_def Let_def)
  have c2: "close_position day1_put 738908 ''stop_loss'' st = st" for st
    by (simp add: close_position_def day1_put_def Let_def)
  show ?thesis
    by (simp add: check_exit_signals_def rm ps cp exit_signals_day2 c1 c2)
qed

lemma process_day2:
  "process_day later day2 [day1, day2] None (after_day1\<lparr>equity_curve := ec\<rparr>)
     = after_day1\<lparr>equity_curve := ec, trades := [day2_trade], positions := [day1_put]\<rparr>"
proof -
  have n: "\<not> should_enter_trade
             (after_day1\<lparr>equity_curve := ec, trades := [day2_trade], positions := [day1_put]\<rparr>)
             [day1, day2]"
    by (simp add: should_enter_trade_def)
  show ?thesis
    using n
    by (simp add: process_day_def day2_def check_exit_signals_day2 Let_def
        update_position_values_day)
qed

lemma backtest_two_days:
  "map equity (equity_curve (run_backtest later [day1, day2] None (BacktestEngine_init 1000000)))
     = [1000000, 980000]
   \<and> map pnl (trades (run_backtest later [day1, day2] None (BacktestEngine_init 1000000))) = [0]
   \<and> map n_positions
         (equity_curve (run_backtest later [day1, day2] None (BacktestEngine_init 1000000)))
     = [2, 1]"
proof -
  have r: "(BacktestEngine_init 1000000)
             \<lparr>current_capital := initial_capital (BacktestEngine_init 1000000), positions := [],
              trades := [], equity_curve := []\<rparr> = BacktestEngine_init 1000000"
    by (simp add: BacktestEngine_init_def)
  have d1: "update_equity_curve 738907 after_day1
        = after_day1\<lparr>equity_curve :=
            [\<lparr>eq_date = 738907, equity = 1000000, capital = 980000, n_positions = 2\<rparr>]\<rparr>"
    by (simp add: update_equity_curve_def after_day1_def BacktestEngine_init_def
        position_value_def day1_call_def day1_put_def Let_def)
  have d2: "update_equity_curve 738908
          (after_day1\<lparr>equity_curve := ec, trades := [day2_trade], positions := [day1_put]\<rparr>)
        = after_day1\<lparr>trades := [day2_trade], positions := [day1_put],
            equity_curve :=
              ec @ [\<lparr>eq_date = 738908, equity = 980000, capital = 980000, n_positions = 1\<rparr>]\<rparr>"
    for ec
    by (simp add: update_equity_curve_def after_day1_def BacktestEngine_init_def
        position_value_def day1_put_def Let_def)
  have c2: "close_position day1_put d reason st = st" for st d reason
    by (simp add: close_position_def day1_put_def Let_def)
  have bd: "bar_date day1 = 738907" "bar_date day2 = 738908"
    by (simp_all add: day1_def day2_def)
  have s1: "update_equity_curve (bar_date day1)
              (process_day later day1 [day1, day2] None (BacktestEngine_init 1000000))
        = after_day1\<lparr>equity_curve :=
            [\<lparr>eq_date = 738907, equity = 1000000, capital = 980000, n_positions = 2\<rparr>]\<rparr>"
    unfolding process_day1 bd by (rule d1)
  have s2: "update_equity_curve (bar_date day2)
              (process_day later day2 [day1, day2] None
                (after_day1\<lparr>equity_curve :=
                  [\<lparr>eq_date = 738907, equity = 1000000, capital = 980000, n_positions = 2\<rparr>]\<rparr>))
        = after_day1\<lparr>trades := [day2_trade], positions := [day1_put],
            equity_curve :=
              [\<lparr>eq_date = 738907, equity = 1000000, capital = 980000, n_positions = 2\<rparr>,
               \<lparr>eq_date = 738908, equity = 980000, capital = 980000, n_positions = 1\<rparr>]\<rparr>"
    unfolding process_day2 bd d2 by simp
  have ne: "[day1, day2] \<noteq> []" "last [day1, day2] = day2" by simp_all
  have "run_backtest later [day1, day2] None (BacktestEngine_init 1000000)
        = after_day1\<lparr>trades := [day2_trade], positions := [day1_put],
            equity_curve :=
              [\<lparr>eq_date = 738907, equity = 1000000, capital = 980000, n_positions = 2\<rparr>,
               \<lparr>eq_date = 738908, equity = 980000, capital = 980000, n_positions = 1\<rparr>]\<rparr>"
    unfolding run_backtest_def Let_def r
    by (simp only: ne if_False foldl.simps s1 s2 close_all_positions_def)
       (simp add: c2)
  then show ?thesis by (simp add: day2_trade_def)
qed

subsection \<open>Put-call parity at and after expiry\<close>

text \<open>
  At a time to expiry of 0 or less \<open>calculate_price\<close> returns the intrinsic values,
  and the call price minus the put price is the spot minus the strike. For a positive
  time to expiry the prices are the closed forms cut off at 0; parity of the returned
  prices then needs both closed forms to be non-negative, which is not derived here.
\<close>

lemma put_call_parity_expired:
  assumes "time_to_expiry params \<le> 0"
  shows "\<exists>call_price put_price.
           BlackScholesPricer_calculate_price params ''call'' = Inr call_price
         \<and> BlackScholesPricer_calculate_price params ''put'' = Inr put_price
         \<and> call_price - put_price = spot_price params - strike_price params"
  using assms by (auto simp: calculate_price_expired)

end
